(* ===== verification/Prelude.thy ===== *)
theory Prelude
  imports Main "HOL-Library.Sublist"
begin

text \<open>
  Shared vocabulary of the development. Python \<open>str\<close> values are modelled as
  \<open>string\<close> holding their UTF-8 encoding (theory \<open>Unicode\<close> gives the encoding);
  Python \<open>int\<close> is \<open>int\<close>; a Python exception raised by the application is a value
  of \<open>py_exc\<close>. This theory holds the character constants the source writes as escapes,
  the collections of lemmas the component proofs use, and generic lemmas on lists and
  \<open>find\<close> (Python's \<open>next(x for x in xs if p(x))\<close>).
\<close>

named_theorems model_defs "definitions of the model unfolded when a handler is evaluated"
named_theorems byte_simps "facts on single characters used by the string and JSON proofs"

abbreviation dq :: char where "dq \<equiv> CHR 0x22"
abbreviation bsl :: char where "bsl \<equiv> CHR 0x5C"
abbreviation nl :: string where "nl \<equiv> [CHR 0x0A]"

lemma char_of_eq_iff' [byte_simps]: "c = char_of n \<longleftrightarrow> of_char c = take_bit 8 n"
  using char_of_eq_iff [of n c] by auto

lemmas [byte_simps] = char_of_eq_iff

text \<open>Exceptions the application code can raise and does not catch.\<close>

datatype py_exc = AttributeError | KeyError string | StopIteration

text \<open>\<open>find\<close> models \<open>next((p for p in xs if P(p)), None)\<close>.\<close>

lemma find_Some_in_set [intro]: "find P xs = Some x \<Longrightarrow> x \<in> set xs"
  by (induction xs) (auto split: if_splits)

lemma find_Some_sat: "find P xs = Some x \<Longrightarrow> P x"
  by (induction xs) (auto split: if_splits)

lemma find_None_iff': "find P xs = None \<longleftrightarrow> (\<forall>x \<in> set xs. \<not> P x)"
  by (induction xs) auto

lemma find_key_distinct:
  assumes "distinct (map f xs)" and "x \<in> set xs"
  shows "find (\<lambda>y. f y = f x) xs = Some x"
  using assms
proof (induction xs)
  case Nil
  then show ?case by simp
next
  case (Cons y ys)
  show ?case
  proof (cases "y = x")
    case True
    then show ?thesis by simp
  next
    case False
    with Cons.prems have "x \<in> set ys" and "f y \<noteq> f x"
      by (auto simp: image_iff)
    with Cons show ?thesis by simp
  qed
qed

lemma sublist_app_right: "sublist x ys \<Longrightarrow> sublist x (zs @ ys)"
  by (metis sublist_append_leftI sublist_order.order.trans)

lemma sublist_app_left: "sublist x ys \<Longrightarrow> sublist x (ys @ zs)"
  by (metis sublist_append_rightI sublist_order.order.trans)

lemma sublist_cons_right: "sublist x ys \<Longrightarrow> sublist x (c # ys)"
  by (metis append_Cons append_Nil sublist_app_right)

lemmas sublist_search = sublist_order.order.refl sublist_app_right sublist_app_left sublist_cons_right

lemma sublist_append_mono [intro]:
  "sublist xs ys \<Longrightarrow> sublist xs (as @ ys @ bs)"
  using sublist_appendI sublist_order.order.trans by blast

end
