(* ===== verification/Unicode.thy ===== *)
theory Unicode
  imports Prelude
begin

text \<open>
  Python \<open>str\<close> values as byte strings. A Python string is a sequence of code points;
  the model stores its UTF-8 encoding. \<open>utf8_enc\<close> encodes one code point (surrogate
  code points get their three-byte form, as CPython's \<open>surrogatepass\<close> does),
  \<open>utf8_cps\<close> reads a byte string back as code points (a byte that does not start a
  well-formed sequence is read as the code point of its value), and \<open>utf8_valid\<close>
  says that a byte string is the encoding of a string of Unicode scalar values, which
  every Python string read from the keyboard, the source or the network is. The main
  fact is the round trip \<open>utf8_cps (concat (map utf8_enc cs)) = cs\<close>.
\<close>

definition scalar_cp :: "nat \<Rightarrow> bool" where
  "scalar_cp c \<longleftrightarrow> c < 0x110000 \<and> \<not> (0xD800 \<le> c \<and> c < 0xE000)"

definition utf8_enc :: "nat \<Rightarrow> string" where
  "utf8_enc c =
    (if c < 0x80 then [char_of c]
     else if c < 0x800 then [char_of (0xC0 + c div 64), char_of (0x80 + c mod 64)]
     else if c < 0x10000 then
       [char_of (0xE0 + c div 4096), char_of (0x80 + c div 64 mod 64), char_of (0x80 + c mod 64)]
     else
       [char_of (0xF0 + c div 262144), char_of (0x80 + c div 4096 mod 64),
        char_of (0x80 + c div 64 mod 64), char_of (0x80 + c mod 64)])"

definition is_cont :: "char \<Rightarrow> bool" where
  "is_cont b \<longleftrightarrow> 0x80 \<le> (of_char b :: nat) \<and> (of_char b :: nat) < 0xC0"

definition cont_val :: "char \<Rightarrow> nat" where
  "cont_val b = of_char b - 0x80"

fun utf8_cps :: "string \<Rightarrow> nat list" where
  "utf8_cps [] = []"
| "utf8_cps (a # s) =
    (let x = (of_char a :: nat) in
     if 0xC0 \<le> x \<and> x < 0xE0 \<and> 1 \<le> length s \<and> is_cont (s ! 0)
     then ((x - 0xC0) * 64 + cont_val (s ! 0)) # utf8_cps (drop 1 s)
     else if 0xE0 \<le> x \<and> x < 0xF0 \<and> 2 \<le> length s \<and> is_cont (s ! 0) \<and> is_cont (s ! 1)
     then ((x - 0xE0) * 4096 + cont_val (s ! 0) * 64 + cont_val (s ! 1)) # utf8_cps (drop 2 s)
     else if 0xF0 \<le> x \<and> x < 0xF8 \<and> 3 \<le> length s \<and> is_cont (s ! 0) \<and> is_cont (s ! 1)
             \<and> is_cont (s ! 2)
     then ((x - 0xF0) * 262144 + cont_val (s ! 0) * 4096 + cont_val (s ! 1) * 64
           + cont_val (s ! 2)) # utf8_cps (drop 3 s)
     else x # utf8_cps s)"

declare utf8_cps.simps(2) [simp del]

definition utf8_valid :: "string \<Rightarrow> bool" where
  "utf8_valid s \<longleftrightarrow> list_all scalar_cp (utf8_cps s) \<and> concat (map utf8_enc (utf8_cps s)) = s"

text \<open>A Python string literal of the source, given by its code points.\<close>

definition py_str :: "nat list \<Rightarrow> string" where
  "py_str cs = concat (map utf8_enc cs)"

lemma utf8_enc_length: "1 \<le> length (utf8_enc c) \<and> length (utf8_enc c) \<le> 4"
  by (simp add: utf8_enc_def)

lemma mod_div_64:
  "c div 4096 * 4096 + c div 64 mod 64 * 64 + c mod 64 = (c::nat)"
  "c div 262144 * 262144 + c div 4096 mod 64 * 4096 + c div 64 mod 64 * 64 + c mod 64 = (c::nat)"
proof -
  have d1: "c div 4096 = c div 64 div 64" and d2: "c div 262144 = c div 4096 div 64"
    and d3: "c div 4096 = c div 64 div 64"
    by (simp_all add: div_mult2_eq [symmetric])
  have e1: "c = c div 64 * 64 + c mod 64" by simp
  have e2: "c div 64 = c div 64 div 64 * 64 + c div 64 mod 64" by simp
  have e3: "c div 4096 = c div 4096 div 64 * 64 + c div 4096 mod 64" by simp
  show "c div 4096 * 4096 + c div 64 mod 64 * 64 + c mod 64 = c"
    using d1 e1 e2 by linarith
  show "c div 262144 * 262144 + c div 4096 mod 64 * 4096 + c div 64 mod 64 * 64 + c mod 64 = c"
    using d1 d2 e1 e2 e3 by linarith
qed

text \<open>Decoding undoes encoding, one code point at a time.\<close>

lemma utf8_cps_enc_append:
  assumes "scalar_cp c"
  shows "utf8_cps (utf8_enc c @ s) = c # utf8_cps s"
proof -
  consider "c < 0x80" | "0x80 \<le> c" "c < 0x800" | "0x800 \<le> c" "c < 0x10000" | "0x10000 \<le> c"
    by linarith
  then show ?thesis
  proof cases
    case 1
    then show ?thesis by (simp add: utf8_enc_def utf8_cps.simps(2) Let_def)
  next
    case 2
    have a: "c div 64 < 32" using 2 by simp
    have b: "2 \<le> c div 64" using 2 by simp
    show ?thesis using 2 a b
      by (simp add: utf8_enc_def utf8_cps.simps(2) Let_def is_cont_def cont_val_def)
  next
    case 3
    have a: "c div 4096 < 16" using 3 by simp
    have c: "c div 4096 * 4096 + c div 64 mod 64 * 64 + c mod 64 = c"
      by (simp add: mod_div_64)
    show ?thesis using 3 a c
      by (simp add: utf8_enc_def utf8_cps.simps(2) Let_def is_cont_def cont_val_def)
  next
    case 4
    have lt: "c < 0x110000" using assms by (simp add: scalar_cp_def)
    have a: "c div 262144 < 5" using lt by simp
    have b: "c div 4096 mod 64 < 64" by simp
    show ?thesis using 4 a mod_div_64(2)
      by (simp add: utf8_enc_def utf8_cps.simps(2) Let_def is_cont_def cont_val_def)
  qed
qed

lemma utf8_cps_py_str:
  "list_all scalar_cp cs \<Longrightarrow> utf8_cps (py_str cs) = cs"
  by (induction cs) (simp_all add: py_str_def utf8_cps_enc_append)

lemma utf8_valid_py_str: "list_all scalar_cp cs \<Longrightarrow> utf8_valid (py_str cs)"
  by (simp add: utf8_valid_def utf8_cps_py_str) (simp add: py_str_def)

lemma ascii_enc [simp]: "of_char a < (0x80::nat) \<Longrightarrow> utf8_enc (of_char a) = [a]"
  by (simp add: utf8_enc_def)

lemma utf8_cps_ascii [simp]:
  "of_char a < (0x80::nat) \<Longrightarrow> utf8_cps (a # s) = of_char a # utf8_cps s"
  by (simp add: utf8_cps.simps(2))

lemma ascii_py_str: "list_all (\<lambda>a. of_char a < (0x80::nat)) s \<Longrightarrow> py_str (map of_char s) = s"
  by (induction s) (simp_all add: py_str_def)

lemma utf8_valid_ascii:
  assumes "list_all (\<lambda>a. of_char a < (0x80::nat)) s"
  shows "utf8_valid s"
proof -
  have "list_all scalar_cp (map of_char s)"
    using assms by (induction s) (auto simp: scalar_cp_def)
  then have "utf8_valid (py_str (map of_char s))" by (rule utf8_valid_py_str)
  with ascii_py_str [OF assms] show ?thesis by simp
qed

end
