(* ===== verification/PyStr.thy ===== *)
theory PyStr
  imports Unicode
begin

text \<open>
  The two Python \<open>str\<close> methods that \<open>find_best_match\<close> (src/app.py line 68) applies to
  the model's answer before parsing it: \<open>str.replace(old, new)\<close> and \<open>str.strip()\<close>.
  Both work on the UTF-8 bytes of the string. For a non-empty \<open>old\<close> the byte-level
  leftmost, non-overlapping scan agrees with Python's code-point scan on valid UTF-8,
  because UTF-8 is self-synchronising; \<open>str.strip()\<close> removes the code points for
  which \<open>str.isspace()\<close> holds, listed in \<open>py_space_cps\<close>, whose encodings are the byte
  strings \<open>py_space_seqs\<close> (the lemma \<open>py_space_seqs_enc\<close> ties the two).
\<close>

subsection \<open>\<open>str.strip()\<close>\<close>

definition py_space_cps :: "nat list" where
  "py_space_cps =
     [0x09, 0x0A, 0x0B, 0x0C, 0x0D, 0x1C, 0x1D, 0x1E, 0x1F, 0x20, 0x85, 0xA0, 0x1680,
      0x2000, 0x2001, 0x2002, 0x2003, 0x2004, 0x2005, 0x2006, 0x2007, 0x2008, 0x2009, 0x200A,
      0x2028, 0x2029, 0x202F, 0x205F, 0x3000]"

definition py_space_seqs :: "string list" where
  "py_space_seqs =
     [[CHR 0x09], [CHR 0x0A], [CHR 0x0B], [CHR 0x0C], [CHR 0x0D], [CHR 0x1C], [CHR 0x1D],
      [CHR 0x1E], [CHR 0x1F], [CHR 0x20], [CHR 0xC2, CHR 0x85], [CHR 0xC2, CHR 0xA0],
      [CHR 0xE1, CHR 0x9A, CHR 0x80],
      [CHR 0xE2, CHR 0x80, CHR 0x80], [CHR 0xE2, CHR 0x80, CHR 0x81], [CHR 0xE2, CHR 0x80, CHR 0x82],
      [CHR 0xE2, CHR 0x80, CHR 0x83], [CHR 0xE2, CHR 0x80, CHR 0x84], [CHR 0xE2, CHR 0x80, CHR 0x85],
      [CHR 0xE2, CHR 0x80, CHR 0x86], [CHR 0xE2, CHR 0x80, CHR 0x87], [CHR 0xE2, CHR 0x80, CHR 0x88],
      [CHR 0xE2, CHR 0x80, CHR 0x89], [CHR 0xE2, CHR 0x80, CHR 0x8A],
      [CHR 0xE2, CHR 0x80, CHR 0xA8], [CHR 0xE2, CHR 0x80, CHR 0xA9], [CHR 0xE2, CHR 0x80, CHR 0xAF],
      [CHR 0xE2, CHR 0x81, CHR 0x9F], [CHR 0xE3, CHR 0x80, CHR 0x80]]"

definition lead_space :: "string \<Rightarrow> string option" where
  "lead_space s = find (\<lambda>w. prefix w s) py_space_seqs"

definition trail_space :: "string \<Rightarrow> string option" where
  "trail_space s = find (\<lambda>w. suffix w s) py_space_seqs"

lemma py_space_seqs_nonempty: "w \<in> set py_space_seqs \<Longrightarrow> w \<noteq> []"
  by (auto simp: py_space_seqs_def)

lemma py_space_seqs_enc: "py_space_seqs = map utf8_enc py_space_cps"
  by (simp add: py_space_seqs_def py_space_cps_def utf8_enc_def byte_simps)

lemma lead_space_shorter:
  assumes "lead_space s = Some w"
  shows "length (drop (length w) s) < length s"
proof -
  from assms have "w \<in> set py_space_seqs" and "prefix w s"
    by (auto simp: lead_space_def dest: find_Some_sat)
  then have "w \<noteq> []" and "length w \<le> length s"
    by (auto simp: py_space_seqs_nonempty prefix_length_le)
  then show ?thesis by (cases w) auto
qed

lemma trail_space_shorter:
  assumes "trail_space s = Some w"
  shows "length (take (length s - length w) s) < length s"
proof -
  from assms have "w \<in> set py_space_seqs" and "suffix w s"
    by (auto simp: trail_space_def dest: find_Some_sat)
  then have "w \<noteq> []" and "length w \<le> length s"
    by (auto simp: py_space_seqs_nonempty suffix_length_le)
  then show ?thesis by (cases w) auto
qed

function py_lstrip :: "string \<Rightarrow> string" where
  "py_lstrip s = (case lead_space s of None \<Rightarrow> s | Some w \<Rightarrow> py_lstrip (drop (length w) s))"
  by pat_completeness auto
termination
  by (relation "measure length") (auto dest: lead_space_shorter)

function py_rstrip :: "string \<Rightarrow> string" where
  "py_rstrip s =
     (case trail_space s of None \<Rightarrow> s | Some w \<Rightarrow> py_rstrip (take (length s - length w) s))"
  by pat_completeness auto
termination
  by (relation "measure length") (auto dest: trail_space_shorter)

declare py_lstrip.simps [simp del] py_rstrip.simps [simp del]

definition py_strip :: "string \<Rightarrow> string" where
  "py_strip s = py_rstrip (py_lstrip s)"

subsection \<open>\<open>str.replace(old, new)\<close>\<close>

fun replace_nonempty :: "string \<Rightarrow> string \<Rightarrow> string \<Rightarrow> string" where
  "replace_nonempty old new [] = []"
| "replace_nonempty old new (c # s) =
     (if prefix old (c # s) then new @ replace_nonempty old new (drop (length old - 1) s)
      else c # replace_nonempty old new s)"

text \<open>With an empty \<open>old\<close>, Python inserts \<open>new\<close> around every code point.\<close>

definition py_replace :: "string \<Rightarrow> string \<Rightarrow> string \<Rightarrow> string" where
  "py_replace old new s =
     (if old = [] then new @ concat (map (\<lambda>c. utf8_enc c @ new) (utf8_cps s))
      else replace_nonempty old new s)"

subsection \<open>Properties of \<open>strip\<close>\<close>

lemma py_lstrip_suffix: "suffix (py_lstrip s) s"
proof (induction s rule: py_lstrip.induct)
  case (1 s)
  show ?case
  proof (cases "lead_space s")
    case None
    then show ?thesis by (simp add: py_lstrip.simps)
  next
    case (Some w)
    with "1.IH" have "suffix (py_lstrip (drop (length w) s)) (drop (length w) s)" by simp
    then show ?thesis
      using Some suffix_drop suffix_order.order_trans by (fastforce simp: py_lstrip.simps)
  qed
qed

lemma py_lstrip_lead: "lead_space (py_lstrip s) = None"
proof (induction s rule: py_lstrip.induct)
  case (1 s)
  then show ?case by (cases "lead_space s") (simp_all add: py_lstrip.simps)
qed

lemma py_rstrip_prefix: "prefix (py_rstrip s) s"
proof (induction s rule: py_rstrip.induct)
  case (1 s)
  show ?case
  proof (cases "trail_space s")
    case None
    then show ?thesis by (simp add: py_rstrip.simps)
  next
    case (Some w)
    with "1.IH" have "prefix (py_rstrip (take (length s - length w) s)) (take (length s - length w) s)"
      by simp
    then show ?thesis
      using Some take_is_prefix prefix_order.order_trans by (fastforce simp: py_rstrip.simps)
  qed
qed

lemma py_rstrip_trail: "trail_space (py_rstrip s) = None"
proof (induction s rule: py_rstrip.induct)
  case (1 s)
  then show ?case by (cases "trail_space s") (simp_all add: py_rstrip.simps)
qed

lemma lead_space_None_prefix:
  "lead_space t = None \<Longrightarrow> prefix r t \<Longrightarrow> lead_space r = None"
  unfolding lead_space_def find_None_iff' using prefix_order.order_trans by blast

lemma py_lstrip_None: "lead_space s = None \<Longrightarrow> py_lstrip s = s"
  by (simp add: py_lstrip.simps)

lemma py_rstrip_None: "trail_space s = None \<Longrightarrow> py_rstrip s = s"
  by (simp add: py_rstrip.simps)

lemma py_strip_ends:
  "lead_space (py_strip s) = None \<and> trail_space (py_strip s) = None"
  unfolding py_strip_def
  using lead_space_None_prefix [OF py_lstrip_lead py_rstrip_prefix] py_rstrip_trail by simp

lemma py_strip_sublist: "sublist (py_strip s) s"
  unfolding py_strip_def
  using py_rstrip_prefix py_lstrip_suffix
  by (meson prefix_imp_sublist suffix_imp_sublist sublist_order.order.trans)

lemma py_strip_idem: "py_strip (py_strip s) = py_strip s"
  using py_strip_ends [of s] by (simp add: py_strip_def py_lstrip_None py_rstrip_None)

lemma py_strip_nl_wrap:
  assumes "lead_space (x @ [CHR 0x0A]) = None" and "trail_space x = None"
  shows "py_strip (CHR 0x0A # x @ [CHR 0x0A]) = x"
proof -
  have l: "lead_space (CHR 0x0A # x @ [CHR 0x0A]) = Some [CHR 0x0A]"
    by (simp add: lead_space_def py_space_seqs_def)
  have t: "trail_space (x @ [CHR 0x0A]) = Some [CHR 0x0A]"
    by (simp add: trail_space_def py_space_seqs_def suffix_to_prefix)
  have "py_lstrip (CHR 0x0A # x @ [CHR 0x0A]) = py_lstrip (x @ [CHR 0x0A])"
    by (subst py_lstrip.simps) (simp add: l)
  also have "\<dots> = x @ [CHR 0x0A]" using assms(1) by (rule py_lstrip_None)
  finally have "py_lstrip (CHR 0x0A # x @ [CHR 0x0A]) = x @ [CHR 0x0A]" .
  moreover have "py_rstrip (x @ [CHR 0x0A]) = py_rstrip x"
    by (subst py_rstrip.simps) (simp add: t)
  ultimately show ?thesis using assms(2) by (simp add: py_strip_def py_rstrip_None)
qed

subsection \<open>Properties of \<open>replace\<close>\<close>

text \<open>A stretch free of the first character of \<open>old\<close> is copied unchanged.\<close>

lemma replace_nonempty_skip:
  assumes "old \<noteq> []" and "hd old \<notin> set x"
  shows "replace_nonempty old new (x @ y) = x @ replace_nonempty old new y"
  using assms(2)
proof (induction x)
  case Nil
  then show ?case by simp
next
  case (Cons c x)
  have "\<not> prefix old (c # x @ y)"
    using assms(1) Cons.prems by (cases old) auto
  with Cons show ?case by simp
qed

text \<open>
  Removing every occurrence of a run of one character (here the backtick fence) leaves no
  such run: the kept pieces never end in a partial run that could join the next one.
\<close>

lemma prefix_replicate_mono:
  assumes "k \<le> n" and "prefix (replicate n c) s"
  shows "prefix (replicate k c) s"
proof -
  have "replicate n c = replicate k c @ replicate (n - k) c"
    using assms(1) by (simp add: replicate_add [symmetric])
  then have "prefix (replicate k c) (replicate n c)" by (simp add: prefixI)
  then show ?thesis using assms(2) by (rule prefix_order.order_trans)
qed

lemma replace_run_lead:
  assumes "\<not> prefix (replicate k c) s" and "k \<le> n"
  shows "\<not> prefix (replicate k c) (replace_nonempty (replicate n c) [] s)"
  using assms
proof (induction s arbitrary: k)
  case Nil
  then show ?case by simp
next
  case (Cons d s)
  have np: "\<not> prefix (replicate n c) (d # s)"
  proof
    assume "prefix (replicate n c) (d # s)"
    with Cons.prems(2) have "prefix (replicate k c) (d # s)" by (rule prefix_replicate_mono)
    with Cons.prems(1) show False by contradiction
  qed
  obtain k' where k: "k = Suc k'"
    using Cons.prems(1) by (cases k) auto
  show ?case
  proof (cases "d = c")
    case True
    with Cons.prems k have "\<not> prefix (replicate k' c) s" and "k' \<le> n" by auto
    then have "\<not> prefix (replicate k' c) (replace_nonempty (replicate n c) [] s)"
      by (rule Cons.IH)
    with np k True show ?thesis by simp
  next
    case False
    with np k show ?thesis by simp
  qed
qed

lemma replace_run_gone:
  assumes "0 < n"
  shows "\<not> sublist (replicate n c) (replace_nonempty (replicate n c) [] s)"
proof (induction s rule: length_induct)
  case (1 s)
  show ?case
  proof (cases s)
    case Nil
    then show ?thesis using assms by simp
  next
    case (Cons d t)
    show ?thesis
    proof (cases "prefix (replicate n c) (d # t)")
      case True
      have "length (drop (n - 1) t) < length s" using Cons by simp
      with "1.IH" have "\<not> sublist (replicate n c) (replace_nonempty (replicate n c) [] (drop (n - 1) t))"
        by blast
      with True Cons show ?thesis by simp
    next
      case False
      have IH: "\<not> sublist (replicate n c) (replace_nonempty (replicate n c) [] t)"
        using "1.IH" Cons by simp
      have "\<not> prefix (replicate n c) (d # replace_nonempty (replicate n c) [] t)"
      proof (cases "d = c")
        case True
        obtain m where n: "n = Suc m" using assms by (cases n) auto
        with False True have "\<not> prefix (replicate m c) t" by simp
        then have "\<not> prefix (replicate m c) (replace_nonempty (replicate n c) [] t)"
          by (rule replace_run_lead) (simp add: n)
        with n True show ?thesis by simp
      next
        case False
        with assms show ?thesis by (cases n) auto
      qed
      with IH False Cons show ?thesis by (simp add: sublist_Cons_right)
    qed
  qed
qed

lemma py_lstrip_spaces:
  "\<exists>ws. set ws \<subseteq> set py_space_seqs \<and> s = concat ws @ py_lstrip s"
proof (induction s rule: py_lstrip.induct)
  case (1 s)
  show ?case
  proof (cases "lead_space s")
    case None
    then show ?thesis by (intro exI [of _ "[]"]) (simp add: py_lstrip_None)
  next
    case (Some w)
    then have w: "w \<in> set py_space_seqs" "prefix w s"
      by (auto simp: lead_space_def dest: find_Some_sat)
    from "1.IH" [OF Some] obtain ws where
      ws: "set ws \<subseteq> set py_space_seqs" "drop (length w) s = concat ws @ py_lstrip (drop (length w) s)"
      by blast
    have "s = w @ drop (length w) s" using w(2) by (metis append_eq_conv_conj prefix_def)
    with ws w(1) Some show ?thesis
      by (intro exI [of _ "w # ws"]) (simp add: py_lstrip.simps [of s])
  qed
qed

lemma py_rstrip_spaces:
  "\<exists>vs. set vs \<subseteq> set py_space_seqs \<and> s = py_rstrip s @ concat vs"
proof (induction s rule: py_rstrip.induct)
  case (1 s)
  show ?case
  proof (cases "trail_space s")
    case None
    then show ?thesis by (intro exI [of _ "[]"]) (simp add: py_rstrip_None)
  next
    case (Some w)
    then have w: "w \<in> set py_space_seqs" "suffix w s"
      by (auto simp: trail_space_def dest: find_Some_sat)
    let ?t = "take (length s - length w) s"
    from "1.IH" [OF Some] obtain vs where
      vs: "set vs \<subseteq> set py_space_seqs" "?t = py_rstrip ?t @ concat vs"
      by blast
    have "s = ?t @ w" using w(2) by (metis append_take_drop_id suffix_take)
    also have "?t = py_rstrip ?t @ concat vs" by (rule vs(2))
    finally have "s = py_rstrip ?t @ concat (vs @ [w])" by simp
    with vs(1) w(1) Some show ?thesis
      by (intro exI [of _ "vs @ [w]"]) (simp add: py_rstrip.simps [of s])
  qed
qed

text \<open>
  The contract of \<open>str.strip()\<close>: it removes whitespace code points, and only them,
  from both ends, and what it leaves neither starts nor ends with whitespace.
\<close>

lemma strip_contract:
  "\<exists>ws vs. set ws \<subseteq> set py_space_seqs \<and> set vs \<subseteq> set py_space_seqs
     \<and> s = concat ws @ py_strip s @ concat vs
     \<and> lead_space (py_strip s) = None \<and> trail_space (py_strip s) = None"
proof -
  obtain ws where ws: "set ws \<subseteq> set py_space_seqs" "s = concat ws @ py_lstrip s"
    using py_lstrip_spaces by blast
  obtain vs where vs: "set vs \<subseteq> set py_space_seqs" "py_lstrip s = py_rstrip (py_lstrip s) @ concat vs"
    using py_rstrip_spaces by blast
  have "s = concat ws @ py_strip s @ concat vs"
    using ws(2) vs(2) by (simp add: py_strip_def)
  with ws(1) vs(1) py_strip_ends [of s] show ?thesis by blast
qed

end
