(* ===== verification/Json.thy ===== *)
theory Json
  imports PyStr
begin

text \<open>
  The two library calls of the \<open>json\<close> module that src/app.py makes:
  \<open>json.dumps(developers)\<close> (line 61, default arguments: \<open>ensure_ascii=True\<close>,
  separators \<open>', '\<close> and \<open>': '\<close>) and \<open>json.loads(clean)\<close> (line 69). The decoder
  follows CPython's scanner (\<open>_json.c\<close>: \<open>scan_once_unicode\<close>,
  \<open>_parse_object_unicode\<close>, \<open>_parse_array_unicode\<close>, \<open>scanstring_unicode\<close>,
  \<open>_match_number_unicode\<close>) and \<open>JSONDecoder.decode\<close> (leading and trailing JSON
  whitespace, "Extra data", the UTF-8 BOM check of \<open>json.loads\<close>). Every
  \<open>JSONDecodeError\<close> is \<open>None\<close>. A JSON number without fraction or exponent becomes
  \<open>JInt\<close> (Python \<open>int\<close>); any other number, and \<open>NaN\<close>, \<open>Infinity\<close>,
  \<open>-Infinity\<close>, becomes \<open>JFloat\<close> holding its text. The decoder recurses with a fuel
  argument; \<open>py_json_loads\<close> gives it \<open>2 * length s + 1\<close>, which the theory
  \<open>JsonDecode\<close> shows is always enough (\<open>py_json_loads_fuel\<close>), so the fuel never
  decides a result.
\<close>

datatype json =
    JNull | JBool bool | JInt int | JFloat string | JStr string
  | JArr "json list" | JObj "(string \<times> json) list"

text \<open>\<open>dict.get(key)\<close> on a decoded object: the last binding of a key wins.\<close>

definition json_get :: "(string \<times> json) list \<Rightarrow> string \<Rightarrow> json option" where
  "json_get kvs k = map_of (rev kvs) k"

subsection \<open>Encoder: \<open>json.dumps\<close>\<close>

definition hex_digit :: "nat \<Rightarrow> char" where
  "hex_digit d = ''0123456789abcdef'' ! d"

definition u_escape :: "nat \<Rightarrow> string" where
  "u_escape c =
     [bsl, CHR ''u'', hex_digit (c div 4096 mod 16), hex_digit (c div 256 mod 16),
      hex_digit (c div 16 mod 16), hex_digit (c mod 16)]"

text \<open>\<open>ascii_escape_unichar\<close> and the \<open>S_CHAR\<close> test of CPython's encoder.\<close>

definition escape_cp :: "nat \<Rightarrow> string" where
  "escape_cp c =
    (if c = 0x5C then [bsl, bsl]
     else if c = 0x22 then [bsl, dq]
     else if c = 0x08 then [bsl, CHR ''b'']
     else if c = 0x0C then [bsl, CHR ''f'']
     else if c = 0x0A then [bsl, CHR ''n'']
     else if c = 0x0D then [bsl, CHR ''r'']
     else if c = 0x09 then [bsl, CHR ''t'']
     else if 0x20 \<le> c \<and> c \<le> 0x7E then [char_of c]
     else if c < 0x10000 then u_escape c
     else u_escape (0xD800 + (c - 0x10000) div 1024) @ u_escape (0xDC00 + (c - 0x10000) mod 1024))"

definition py_encode_str :: "string \<Rightarrow> string" where
  "py_encode_str s = dq # concat (map escape_cp (utf8_cps s)) @ [dq]"

definition digit_char :: "nat \<Rightarrow> char" where
  "digit_char d = ''0123456789'' ! d"

fun nat_str :: "nat \<Rightarrow> string" where
  "nat_str n = (if n < 10 then [digit_char n] else nat_str (n div 10) @ [digit_char (n mod 10)])"

declare nat_str.simps [simp del]

definition py_int_str :: "int \<Rightarrow> string" where
  "py_int_str i = (if i < 0 then CHR ''-'' # nat_str (nat (- i)) else nat_str (nat i))"

fun dumps :: "json \<Rightarrow> string"
  and dumps_items :: "json list \<Rightarrow> string"
  and dumps_members :: "(string \<times> json) list \<Rightarrow> string" where
  "dumps JNull = ''null''"
| "dumps (JBool b) = (if b then ''true'' else ''false'')"
| "dumps (JInt i) = py_int_str i"
| "dumps (JFloat l) = l"
| "dumps (JStr s) = py_encode_str s"
| "dumps (JArr vs) = CHR ''['' # dumps_items vs @ '']''"
| "dumps (JObj kvs) = CHR ''{'' # dumps_members kvs @ ''}''"
| "dumps_items [] = []"
| "dumps_items [v] = dumps v"
| "dumps_items (v # v' # vs) = dumps v @ '', '' @ dumps_items (v' # vs)"
| "dumps_members [] = []"
| "dumps_members [(k, v)] = py_encode_str k @ '': '' @ dumps v"
| "dumps_members ((k, v) # kv' # kvs) =
     py_encode_str k @ '': '' @ dumps v @ '', '' @ dumps_members (kv' # kvs)"

subsection \<open>Decoder: \<open>json.loads\<close>\<close>

definition json_ws :: "char \<Rightarrow> bool" where
  "json_ws c \<longleftrightarrow> c = CHR '' '' \<or> c = CHR 0x09 \<or> c = CHR 0x0A \<or> c = CHR 0x0D"

definition skip_ws :: "string \<Rightarrow> string" where
  "skip_ws s = dropWhile json_ws s"

definition hex_val :: "char \<Rightarrow> nat option" where
  "hex_val c = map_of
     [(CHR ''0'', 0), (CHR ''1'', 1), (CHR ''2'', 2), (CHR ''3'', 3), (CHR ''4'', 4),
      (CHR ''5'', 5), (CHR ''6'', 6), (CHR ''7'', 7), (CHR ''8'', 8), (CHR ''9'', 9),
      (CHR ''a'', 10), (CHR ''b'', 11), (CHR ''c'', 12), (CHR ''d'', 13), (CHR ''e'', 14),
      (CHR ''f'', 15), (CHR ''A'', 10), (CHR ''B'', 11), (CHR ''C'', 12), (CHR ''D'', 13),
      (CHR ''E'', 14), (CHR ''F'', 15)] c"

fun hex4 :: "string \<Rightarrow> (nat \<times> string) option" where
  "hex4 (a # b # c # d # r) =
     (case (hex_val a, hex_val b, hex_val c, hex_val d) of
        (Some w, Some x, Some y, Some z) \<Rightarrow> Some (w * 4096 + x * 256 + y * 16 + z, r)
      | _ \<Rightarrow> None)"
| "hex4 _ = None"

definition simple_escape :: "char \<Rightarrow> char option" where
  "simple_escape e = map_of
     [(dq, dq), (bsl, bsl), (CHR ''/'', CHR ''/''), (CHR ''b'', CHR 0x08), (CHR ''f'', CHR 0x0C),
      (CHR ''n'', CHR 0x0A), (CHR ''r'', CHR 0x0D), (CHR ''t'', CHR 0x09)] e"

definition is_high :: "nat \<Rightarrow> bool" where
  "is_high c \<longleftrightarrow> 0xD800 \<le> c \<and> c < 0xDC00"

definition is_low :: "nat \<Rightarrow> bool" where
  "is_low c \<longleftrightarrow> 0xDC00 \<le> c \<and> c < 0xE000"

text \<open>
  After \<open>\uXXXX\<close> gave the unit \<open>c\<close>: a high surrogate directly followed by an
  escaped low surrogate is joined with it; otherwise the unit stands alone.
\<close>

definition join_surrogate :: "nat \<Rightarrow> string \<Rightarrow> nat \<times> string" where
  "join_surrogate c r =
     (if is_high c \<and> take 2 r = [bsl, CHR ''u''] then
        (case hex4 (drop 2 r) of
           Some (c2, r') \<Rightarrow>
             if is_low c2 then (0x10000 + (c - 0xD800) * 1024 + (c2 - 0xDC00), r') else (c, r)
         | None \<Rightarrow> (c, r))
      else (c, r))"

lemma hex4_shorter: "hex4 s = Some (u, r) \<Longrightarrow> length r < length s"
  by (induction s rule: hex4.induct) (auto split: option.splits)

lemma join_surrogate_shorter: "join_surrogate c r = (c', r') \<Longrightarrow> length r' \<le> length r"
  by (auto simp: join_surrogate_def split: if_splits option.splits dest!: hex4_shorter)

function scan_string :: "string \<Rightarrow> string \<Rightarrow> (string \<times> string) option" where
  "scan_string acc [] = None"
| "scan_string acc (c # r) =
     (if c = dq then Some (rev acc, r)
      else if c = bsl then
        (case r of
           [] \<Rightarrow> None
         | e # r' \<Rightarrow>
             if e = CHR ''u'' then
               (case hex4 r' of
                  None \<Rightarrow> None
                | Some (u, r'') \<Rightarrow>
                    (case join_surrogate u r'' of
                       (cp, r3) \<Rightarrow> scan_string (rev (utf8_enc cp) @ acc) r3))
             else
               (case simple_escape e of
                  None \<Rightarrow> None
                | Some x \<Rightarrow> scan_string (x # acc) r'))
      else if of_char c < (0x20::nat) then None
      else scan_string (c # acc) r)"
  by pat_completeness auto
termination
  by (relation "measure (\<lambda>(acc, s). length s)")
     (auto dest!: hex4_shorter join_surrogate_shorter [OF sym])

definition is_digit :: "char \<Rightarrow> bool" where
  "is_digit c \<longleftrightarrow> c \<in> set ''0123456789''"

definition digit_val :: "char \<Rightarrow> nat" where
  "digit_val c = of_char c - 48"

definition digits_nat :: "string \<Rightarrow> nat" where
  "digits_nat ds = foldl (\<lambda>n d. 10 * n + digit_val d) 0 ds"

text \<open>\<open>_match_number_unicode\<close>: \<open>-?(0|[1-9][0-9]*)(\.[0-9]+)?([eE][-+]?[0-9]+)?\<close>.\<close>

definition lex_int :: "string \<Rightarrow> (string \<times> string) option" where
  "lex_int s =
     (case s of
        [] \<Rightarrow> None
      | c # r \<Rightarrow>
          if c = CHR ''0'' then Some (''0'', r)
          else if is_digit c then Some (c # takeWhile is_digit r, dropWhile is_digit r)
          else None)"

definition lex_frac :: "string \<Rightarrow> string \<times> string" where
  "lex_frac s =
     (case s of
        c # d # r \<Rightarrow>
          if c = CHR ''.'' \<and> is_digit d then (c # d # takeWhile is_digit r, dropWhile is_digit r)
          else ([], s)
      | _ \<Rightarrow> ([], s))"

definition lex_exp :: "string \<Rightarrow> string \<times> string" where
  "lex_exp s =
     (case s of
        e # r \<Rightarrow>
          if e = CHR ''e'' \<or> e = CHR ''E'' then
            (let (sg, r1) = (case r of
                               c # r' \<Rightarrow> if c = CHR ''+'' \<or> c = CHR ''-'' then ([c], r') else ([], r)
                             | [] \<Rightarrow> ([], r))
             in case r1 of
                  d # r2 \<Rightarrow>
                    if is_digit d then (e # sg @ d # takeWhile is_digit r2, dropWhile is_digit r2)
                    else ([], s)
                | [] \<Rightarrow> ([], s))
          else ([], s)
      | [] \<Rightarrow> ([], s))"

definition lex_number :: "string \<Rightarrow> (json \<times> string) option" where
  "lex_number s =
     (let (neg, s1) = (case s of c # r \<Rightarrow> if c = CHR ''-'' then (True, r) else (False, s)
                                | [] \<Rightarrow> (False, s))
      in case lex_int s1 of
           None \<Rightarrow> None
         | Some (ip, r1) \<Rightarrow>
             (case lex_frac r1 of
                (fr, r2) \<Rightarrow>
                  (case lex_exp r2 of
                     (ex, r3) \<Rightarrow>
                       if fr = [] \<and> ex = []
                       then Some (JInt ((if neg then -1 else 1) * int (digits_nat ip)), r3)
                       else Some (JFloat ((if neg then ''-'' else []) @ ip @ fr @ ex), r3))))"

text \<open>
  \<open>jvalue\<close> is \<open>scan_once_unicode\<close> at the start of a value; \<open>jarray\<close> and
  \<open>jobject\<close> are the loops of \<open>_parse_array_unicode\<close> and
  \<open>_parse_object_unicode\<close>, entered at a value (resp. key) position with the items
  read so far, in reverse. Each call spends one unit of fuel.
\<close>

fun jvalue :: "nat \<Rightarrow> string \<Rightarrow> (json \<times> string) option"
  and jarray :: "nat \<Rightarrow> json list \<Rightarrow> string \<Rightarrow> (json \<times> string) option"
  and jobject :: "nat \<Rightarrow> (string \<times> json) list \<Rightarrow> string \<Rightarrow> (json \<times> string) option" where
  "jvalue 0 s = None"
| "jvalue (Suc n) [] = None"
| "jvalue (Suc n) (c # r) =
     (if c = dq then
        (case scan_string [] r of None \<Rightarrow> None | Some (t, r') \<Rightarrow> Some (JStr t, r'))
      else if c = CHR ''{'' then
        (case skip_ws r of
           [] \<Rightarrow> None
         | d # r1 \<Rightarrow> if d = CHR ''}'' then Some (JObj [], r1) else jobject n [] (d # r1))
      else if c = CHR ''['' then
        (case skip_ws r of
           [] \<Rightarrow> None
         | d # r1 \<Rightarrow> if d = CHR '']'' then Some (JArr [], r1) else jarray n [] (d # r1))
      else if prefix ''null'' (c # r) then Some (JNull, drop 3 r)
      else if prefix ''true'' (c # r) then Some (JBool True, drop 3 r)
      else if prefix ''false'' (c # r) then Some (JBool False, drop 4 r)
      else if prefix ''NaN'' (c # r) then Some (JFloat ''NaN'', drop 2 r)
      else if prefix ''Infinity'' (c # r) then Some (JFloat ''Infinity'', drop 7 r)
      else if prefix ''-Infinity'' (c # r) then Some (JFloat ''-Infinity'', drop 8 r)
      else lex_number (c # r))"
| "jarray 0 acc s = None"
| "jarray (Suc n) acc s =
     (case jvalue n s of
        None \<Rightarrow> None
      | Some (v, r) \<Rightarrow>
          (case skip_ws r of
             [] \<Rightarrow> None
           | d # r1 \<Rightarrow>
               if d = CHR '']'' then Some (JArr (rev (v # acc)), r1)
               else if d = CHR '','' then jarray n (v # acc) (skip_ws r1)
               else None))"
| "jobject 0 acc s = None"
| "jobject (Suc n) acc [] = None"
| "jobject (Suc n) acc (c # r) =
     (if c \<noteq> dq then None
      else
        (case scan_string [] r of
           None \<Rightarrow> None
         | Some (k, r1) \<Rightarrow>
             (case skip_ws r1 of
                [] \<Rightarrow> None
              | d # r2 \<Rightarrow>
                  if d \<noteq> CHR '':'' then None
                  else
                    (case jvalue n (skip_ws r2) of
                       None \<Rightarrow> None
                     | Some (v, r3) \<Rightarrow>
                         (case skip_ws r3 of
                            [] \<Rightarrow> None
                          | e # r4 \<Rightarrow>
                              if e = CHR ''}'' then Some (JObj (rev ((k, v) # acc)), r4)
                              else if e = CHR '','' then jobject n ((k, v) # acc) (skip_ws r4)
                              else None)))))"

definition py_json_loads :: "string \<Rightarrow> json option" where
  "py_json_loads s =
     (if prefix [CHR 0xEF, CHR 0xBB, CHR 0xBF] s then None
      else case jvalue (2 * length s + 1) (skip_ws s) of
             None \<Rightarrow> None
           | Some (v, r) \<Rightarrow> if skip_ws r = [] then Some v else None)"

end
