(* ===== verification/Directory.thy ===== *)
theory Directory
  imports Json
begin

text \<open>
  The persona directory: the module-level list \<open>developers\<close> of src/app.py
  (lines 10--23), one Python dict per persona, and the lookup by name that the code
  writes twice as \<open>next(p for p in developers if p["name"] == name)\<close> (line 75 with a
  default of \<open>None\<close>, line 156 without one). A dict of the roster is the record
  \<open>persona\<close>; the avatar glyphs are given by their code points. \<open>persona_json\<close> is the
  dict as \<open>json.dumps\<close> sees it, keys in the order of the literal.
\<close>

record persona =
  dev_id :: int
  dev_name :: string
  dev_role :: string
  dev_stack :: string
  dev_bio :: string
  dev_avatar :: string
  dev_style :: string

definition developers :: "persona list" where
  "developers = [
    \<lparr>dev_id = 1, dev_name = ''Alice Chen'', dev_role = ''Frontend Architect'',
     dev_stack = ''React, TypeScript, Tailwind'',
     dev_bio = ''Obsessed with pixel-perfect UI. I hate backend logic. If it doesn't look good, it doesn't work.'',
     dev_avatar = py_str [0x1F3A8], dev_style = ''Visual & Creative''\<rparr>,
    \<lparr>dev_id = 2, dev_name = ''Bob Smith'', dev_role = ''Backend Specialist'',
     dev_stack = ''Python, Django, PostgreSQL'',
     dev_bio = ''I optimize queries for fun. Frontend CSS scares me. I build robust APIs that never crash.'',
     dev_avatar = py_str [0x2699, 0xFE0F], dev_style = ''Logical & Blunt''\<rparr>,
    \<lparr>dev_id = 3, dev_name = ''Charlie Kim'', dev_role = ''Fullstack Founder'',
     dev_stack = ''Node.js, MongoDB, AWS'',
     dev_bio = ''Shipping MVPs in 48 hours. I value speed over code quality. Let's just launch it.'',
     dev_avatar = py_str [0x1F680], dev_style = ''Energetic & Fast''\<rparr>,
    \<lparr>dev_id = 4, dev_name = ''Dana White'', dev_role = ''AI Engineer'',
     dev_stack = ''PyTorch, HuggingFace, LangChain'',
     dev_bio = ''Fine-tuning LLMs and building RAG pipelines. I speak in vectors and embeddings.'',
     dev_avatar = py_str [0x1F9E0], dev_style = ''Academic & Complex''\<rparr>,
    \<lparr>dev_id = 5, dev_name = ''Evan Wright'', dev_role = ''DevOps Engineer'',
     dev_stack = ''Docker, Kubernetes, Terraform'',
     dev_bio = ''If you deploy manually, we can't be friends. I automate everything.'',
     dev_avatar = py_str [0x1F433], dev_style = ''Strict & Organized''\<rparr>,
    \<lparr>dev_id = 6, dev_name = ''Fiona Gallagher'', dev_role = ''Mobile Dev'',
     dev_stack = ''Flutter, Dart, Firebase'',
     dev_bio = ''Building cross-platform apps. I care about touch interactions and 60fps performance.'',
     dev_avatar = py_str [0x1F4F1], dev_style = ''User-Focused''\<rparr>,
    \<lparr>dev_id = 7, dev_name = ''Greg House'', dev_role = ''Cybersecurity'',
     dev_stack = ''Kali Linux, Penetration Testing'',
     dev_bio = ''I break things to make them stronger. Your API keys are probably leaked already.'',
     dev_avatar = py_str [0x1F512], dev_style = ''Paranoid & Careful''\<rparr>,
    \<lparr>dev_id = 8, dev_name = ''Hannah Lee'', dev_role = ''Game Developer'',
     dev_stack = ''Unity, C#, Shader Graph'',
     dev_bio = ''Making indie games. I know 3D math and physics engines. Gamers are the toughest users.'',
     dev_avatar = py_str [0x1F3AE], dev_style = ''Playful & Technical''\<rparr>,
    \<lparr>dev_id = 9, dev_name = ''Ian Malcolm'', dev_role = ''Data Scientist'',
     dev_stack = ''R, Pandas, Tableau'',
     dev_bio = ''Data tells a story. I clean messy datasets and find hidden trends.'',
     dev_avatar = py_str [0x1F4CA], dev_style = ''Analytical''\<rparr>,
    \<lparr>dev_id = 10, dev_name = ''Jack Sparrow'', dev_role = ''Blockchain Dev'',
     dev_stack = ''Solidity, Rust, Web3.js'',
     dev_bio = ''Building decentralized apps. Code is law. WAGMI.'',
     dev_avatar = py_str [0x26D3, 0xFE0F], dev_style = ''Crypto-Native''\<rparr>,
    \<lparr>dev_id = 11, dev_name = ''Karen Page'', dev_role = ''Project Manager'',
     dev_stack = ''Jira, Agile, Scrum'',
     dev_bio = ''I keep developers on track. No, we cannot add that feature in this sprint.'',
     dev_avatar = py_str [0x1F4C5], dev_style = ''Organized & Pushy''\<rparr>,
    \<lparr>dev_id = 12, dev_name = ''Leo Messi'', dev_role = ''Junior Dev'',
     dev_stack = ''HTML, CSS, JavaScript'',
     dev_bio = ''Just graduated bootcamp! Eager to learn everything. Looking for a mentor.'',
     dev_avatar = py_str [0x1F393], dev_style = ''Curious & Humble''\<rparr>]"

definition find_persona :: "string \<Rightarrow> persona option" where
  "find_persona nm = find (\<lambda>p. dev_name p = nm) developers"

definition persona_json :: "persona \<Rightarrow> json" where
  "persona_json p =
     JObj [(''id'', JInt (dev_id p)), (''name'', JStr (dev_name p)), (''role'', JStr (dev_role p)),
           (''stack'', JStr (dev_stack p)), (''bio'', JStr (dev_bio p)),
           (''avatar'', JStr (dev_avatar p)), (''style'', JStr (dev_style p))]"

definition developers_json :: json where
  "developers_json = JArr (map persona_json developers)"

lemma developers_names_distinct: "distinct (map dev_name developers)"
  by (simp add: developers_def)

lemma developers_ids_distinct: "distinct (map dev_id developers)"
  by (simp add: developers_def)

lemma developers_length: "length developers = 12"
  by (simp add: developers_def)

lemma find_persona_Some:
  "find_persona nm = Some p \<Longrightarrow> p \<in> set developers \<and> dev_name p = nm"
  unfolding find_persona_def using find_Some_in_set find_Some_sat by fastforce

lemma find_persona_None: "find_persona nm = None \<longleftrightarrow> nm \<notin> dev_name ` set developers"
  by (auto simp: find_persona_def find_None_iff')

lemma find_persona_member: "p \<in> set developers \<Longrightarrow> find_persona (dev_name p) = Some p"
  unfolding find_persona_def using developers_names_distinct by (rule find_key_distinct)

text \<open>
  C24: the lookup \<open>next(p for p in developers if p["name"] == nm)\<close> finds a persona
  exactly when it is in the roster under that name; since the roster's names are
  distinct, the answer is determined by the name.
\<close>

theorem find_persona_iff:
  "find_persona nm = Some p \<longleftrightarrow> p \<in> set developers \<and> dev_name p = nm"
  using find_persona_Some find_persona_member by blast

end
