(* ===== verification/Backend.thy ===== *)
theory Backend
  imports Directory
begin

text \<open>
  The hosted generation service, seen from the code. src/app.py talks to it through two
  calls of the \<open>google.generativeai\<close> library, both outside the model and given here as
  interfaces:
  \<^item> a \<open>generator\<close> answers \<open>genai.GenerativeModel(m).generate_content(prompt).text\<close>
    for a model name \<open>m\<close> and a prompt: \<open>Some text\<close>, or \<open>None\<close> when the call or
    the \<open>.text\<close> accessor raises (the code catches every such exception);
  \<^item> a \<open>model_lister\<close> answers \<open>genai.configure(api_key=k); genai.list_models()\<close>:
    the models with their supported generation methods, or \<open>None\<close> when configuring
    or listing raises.
  The lemmas of the components hold for every generator and every lister: they quantify
  over the interface. \<open>configure_model\<close> is the sidebar block (lines 33--47) that picks
  \<open>selected_model\<close>, recomputed on every rerun of the script.
\<close>

type_synonym generator = "string \<Rightarrow> string \<Rightarrow> string option"

record model_info =
  mi_name :: string
  mi_methods :: "string list"

type_synonym model_lister = "string \<Rightarrow> model_info list option"

datatype key_status = NoKey | KeyRejected | NoModels | Online string

definition default_model :: string where
  "default_model = ''gemini-1.5-flash''"

definition configure_model :: "string \<Rightarrow> model_lister \<Rightarrow> string \<times> key_status" where
  "configure_model key lister =
     (if key = [] then (default_model, NoKey)
      else case lister key of
             None \<Rightarrow> (default_model, KeyRejected)
           | Some ms \<Rightarrow>
               (let models = [mi_name m. m \<leftarrow> ms, ''generateContent'' \<in> set (mi_methods m)]
                in if models = [] then (default_model, NoModels)
                   else if ''models/gemini-1.5-flash'' \<in> set models
                   then (''models/gemini-1.5-flash'', Online ''models/gemini-1.5-flash'')
                   else (hd models, Online (hd models))))"

definition selected_model :: "string \<Rightarrow> model_lister \<Rightarrow> string" where
  "selected_model key lister = fst (configure_model key lister)"

text \<open>
  Both prompts are triple-quoted f-strings written inside a function body: they start with
  a newline, every line is indented by four spaces, and the closing quotes sit on an
  indented line of their own.
\<close>

definition prompt_line :: "string \<Rightarrow> string" where
  "prompt_line s = ''    '' @ s @ nl"

definition prompt_text :: "string list \<Rightarrow> string" where
  "prompt_text ls = nl @ concat (map prompt_line ls) @ ''    ''"

lemma sublist_prompt_text:
  assumes "sublist x l" and "l \<in> set ls"
  shows "sublist x (prompt_text ls)"
proof -
  have "sublist l (prompt_line l)" unfolding prompt_line_def by (rule sublist_appendI)
  moreover have "sublist (prompt_line l) (concat (map prompt_line ls))"
    using assms(2) by (induction ls) (auto intro: sublist_search)
  ultimately have "sublist x (concat (map prompt_line ls))"
    using assms(1) sublist_order.order.trans by blast
  then show ?thesis by (simp add: prompt_text_def sublist_search)
qed

subsection \<open>Properties of the model choice\<close>

lemma supported_names:
  "[mi_name m. m \<leftarrow> ms, P m] = map mi_name (filter P ms)"
  by (induction ms) auto

lemma hd_filter_in:
  "filter P xs \<noteq> [] \<Longrightarrow> hd (filter P xs) \<in> set xs \<and> P (hd (filter P xs))"
  using hd_in_set [of "filter P xs"] by simp

lemma configure_model_cases:
  "configure_model key lister = (default_model, NoKey)
   \<or> configure_model key lister = (default_model, KeyRejected)
   \<or> configure_model key lister = (default_model, NoModels)
   \<or> (\<exists>ms mi. key \<noteq> [] \<and> lister key = Some ms \<and> mi \<in> set ms
        \<and> ''generateContent'' \<in> set (mi_methods mi)
        \<and> configure_model key lister = (mi_name mi, Online (mi_name mi)))"
  by (auto simp: configure_model_def Let_def supported_names hd_map
           split: option.splits if_splits dest: hd_filter_in)

text \<open>
  C21: the sidebar selects either the default \<open>"gemini-1.5-flash"\<close> or the name of a
  model that the service listed, for the key entered, as supporting
  \<open>generateContent\<close>; the status shows \<open>Online\<close> exactly for the latter.
\<close>

theorem configure_model_listed:
  "(fst (configure_model key lister) = default_model \<and> (\<forall>m. snd (configure_model key lister) \<noteq> Online m))
   \<or> (\<exists>ms mi. key \<noteq> [] \<and> lister key = Some ms \<and> mi \<in> set ms
        \<and> ''generateContent'' \<in> set (mi_methods mi)
        \<and> snd (configure_model key lister) = Online (mi_name mi)
        \<and> selected_model key lister = mi_name mi)"
  using configure_model_cases [of key lister] by (auto simp: selected_model_def)

text \<open>
  C22: with a key the service accepts and at least one model supporting
  \<open>generateContent\<close>, the sidebar picks \<open>"models/gemini-1.5-flash"\<close> when it is among
  them and otherwise the first of them in the order of \<open>list_models()\<close>.
\<close>

theorem configure_model_prefers:
  assumes "key \<noteq> []" and "lister key = Some ms"
    and "filter (\<lambda>m. ''generateContent'' \<in> set (mi_methods m)) ms \<noteq> []"
  shows "selected_model key lister =
           (if \<exists>m \<in> set ms. mi_name m = ''models/gemini-1.5-flash'' \<and> ''generateContent'' \<in> set (mi_methods m)
            then ''models/gemini-1.5-flash''
            else mi_name (hd (filter (\<lambda>m. ''generateContent'' \<in> set (mi_methods m)) ms)))"
proof -
  show ?thesis
    using assms by (auto simp: selected_model_def configure_model_def Let_def supported_names hd_map image_iff)
qed

theorem configure_model_prefers_witness:
  "selected_model ''k'' (\<lambda>_. Some [\<lparr>mi_name = ''models/embedding-001'', mi_methods = [''embedContent'']\<rparr>,
                                  \<lparr>mi_name = ''models/gemini-pro'', mi_methods = [''generateContent'']\<rparr>])
   = ''models/gemini-pro''"
  using configure_model_prefers [of "''k''" "\<lambda>_. Some [\<lparr>mi_name = ''models/embedding-001'', mi_methods = [''embedContent'']\<rparr>,
                                  \<lparr>mi_name = ''models/gemini-pro'', mi_methods = [''generateContent'']\<rparr>]"]
  by simp

text \<open>
  C23: when the key is accepted but the service lists no model supporting
  \<open>generateContent\<close>, the sidebar keeps the default model and reports neither
  success nor a key error.
\<close>

theorem configure_model_no_models:
  assumes "key \<noteq> []" and "lister key = Some ms"
    and "\<forall>m \<in> set ms. ''generateContent'' \<notin> set (mi_methods m)"
  shows "configure_model key lister = (default_model, NoModels)"
proof -
  have "filter (\<lambda>m. ''generateContent'' \<in> set (mi_methods m)) ms = []"
    using assms(3) by (simp add: filter_empty_conv)
  then show ?thesis using assms(1,2) by (simp add: configure_model_def supported_names)
qed

theorem configure_model_no_models_witness:
  "configure_model ''k'' (\<lambda>_. Some [\<lparr>mi_name = ''models/embedding-001'', mi_methods = [''embedContent'']\<rparr>])
   = (''gemini-1.5-flash'', NoModels)"
  using configure_model_no_models [of "''k''" "\<lambda>_. Some [\<lparr>mi_name = ''models/embedding-001'', mi_methods = [''embedContent'']\<rparr>]"]
  by (simp add: default_model_def)

end
