(* ===== verification/Responder.thy ===== *)
theory Responder
  imports Backend
begin

text \<open>
  The roleplay responder, \<open>chat_with_persona(user_msg, persona_name, file_context)\<close> of
  src/app.py (lines 73--105): it looks the persona up by name, answers
  \<open>"Error: User left."\<close> without calling the service when the name is unknown, builds the
  roleplay prompt (with a file instruction only when \<open>file_context\<close> is truthy, i.e.
  neither \<open>None\<close> nor empty), sends it to the selected model and returns the generated
  text, or \<open>"..."\<close> when generation fails. The prompt is the f-string of lines 85--100,
  character for character: it starts with a newline and every line is indented by four
  spaces.
\<close>

definition file_instruction :: "string option \<Rightarrow> string" where
  \<open>file_instruction fc =
     (case fc of
        None \<Rightarrow> []
      | Some f \<Rightarrow>
          if f = [] then []
          else ''USER JUST SENT A FILE: '' @ f @ ''. React to receiving this file based on your ''
               @ ''personality (e.g. if image, comment on design; if code, comment on logic).'')\<close>

definition roleplay_prompt :: "persona \<Rightarrow> string \<Rightarrow> string \<Rightarrow> string" where
  \<open>roleplay_prompt p user_msg fi =
     prompt_text
       [''ROLEPLAY INSTRUCTION:'',
        ''You are '' @ dev_name p @ ''.'',
        ''Role: '' @ dev_role p,
        ''Bio: '' @ dev_bio p,
        ''Personality: '' @ dev_style p,
        ''Tech Stack: '' @ dev_stack p,
        '''',
        ''Current Chat Context: User said "'' @ user_msg @ ''"'',
        fi,
        '''',
        ''Reply as '' @ dev_name p @ ''. '',
        ''- Keep it short (under 40 words).'',
        ''- Be helpful but stay in character.'',
        ''- If you are "Blunt", be blunt. If "Humble", be humble.'']\<close>

definition user_left :: string where
  "user_left = ''Error: User left.''"

definition filler_reply :: string where
  "filler_reply = ''...''"

definition chat_with_persona ::
  "generator \<Rightarrow> string \<Rightarrow> string \<Rightarrow> string \<Rightarrow> string option \<Rightarrow> string" where
  "chat_with_persona gen model user_msg persona_name file_context =
     (case find_persona persona_name of
        None \<Rightarrow> user_left
      | Some p \<Rightarrow>
          (case gen model (roleplay_prompt p user_msg (file_instruction file_context)) of
             None \<Rightarrow> filler_reply
           | Some text \<Rightarrow> text))"

lemma roleplay_prompt_parts:
  "sublist user_msg (roleplay_prompt p user_msg fi) \<and> sublist (dev_name p) (roleplay_prompt p user_msg fi)
   \<and> sublist (dev_role p) (roleplay_prompt p user_msg fi) \<and> sublist (dev_bio p) (roleplay_prompt p user_msg fi)
   \<and> sublist (dev_style p) (roleplay_prompt p user_msg fi) \<and> sublist (dev_stack p) (roleplay_prompt p user_msg fi)
   \<and> sublist fi (roleplay_prompt p user_msg fi)"
proof (intro conjI)
  show "sublist user_msg (roleplay_prompt p user_msg fi)"
    unfolding roleplay_prompt_def
    by (rule sublist_prompt_text [OF sublist_appendI [of user_msg "''Current Chat Context: User said \"''" "''\"''"]]) simp
  show "sublist (dev_name p) (roleplay_prompt p user_msg fi)"
    unfolding roleplay_prompt_def
    by (rule sublist_prompt_text [OF sublist_appendI [of "dev_name p" "''You are ''" "''.''"]]) simp
  show "sublist (dev_role p) (roleplay_prompt p user_msg fi)"
    unfolding roleplay_prompt_def
    by (rule sublist_prompt_text [OF sublist_append_leftI [of "dev_role p" "''Role: ''"]]) simp
  show "sublist (dev_bio p) (roleplay_prompt p user_msg fi)"
    unfolding roleplay_prompt_def
    by (rule sublist_prompt_text [OF sublist_append_leftI [of "dev_bio p" "''Bio: ''"]]) simp
  show "sublist (dev_style p) (roleplay_prompt p user_msg fi)"
    unfolding roleplay_prompt_def
    by (rule sublist_prompt_text [OF sublist_append_leftI [of "dev_style p" "''Personality: ''"]]) simp
  show "sublist (dev_stack p) (roleplay_prompt p user_msg fi)"
    unfolding roleplay_prompt_def
    by (rule sublist_prompt_text [OF sublist_append_leftI [of "dev_stack p" "''Tech Stack: ''"]]) simp
  show "sublist fi (roleplay_prompt p user_msg fi)"
    unfolding roleplay_prompt_def
    by (rule sublist_prompt_text [OF sublist_order.order.refl]) simp
qed

lemma file_instruction_Some:
  "f \<noteq> [] \<Longrightarrow> file_instruction (Some f) = ''USER JUST SENT A FILE: '' @ f @
     ''. React to receiving this file based on your personality (e.g. if image, comment on design; if code, comment on logic).''"
  by (simp add: file_instruction_def)

subsection \<open>Properties of the responder\<close>

text \<open>
  C15: for a name that is not in the directory the responder answers
  \<open>"Error: User left."\<close> whatever the service would say: it makes no call.
\<close>

theorem chat_unknown_persona:
  assumes "find_persona nm = None"
  shows "chat_with_persona gen model msg nm fc = user_left"
  using assms by (simp add: chat_with_persona_def)

theorem chat_unknown_persona_witness:
  "chat_with_persona (\<lambda>_ _. Some ''Hello'') ''gemini-1.5-flash'' ''hi'' ''Zoe Park'' None = ''Error: User left.''"
proof -
  have "find_persona ''Zoe Park'' = None" by (simp add: find_persona_def developers_def)
  from chat_unknown_persona [OF this] show ?thesis by (simp add: user_left_def)
qed

text \<open>
  C16: for a persona of the directory the responder never fails: it returns the service's
  text for one prompt, or \<open>"..."\<close> when the service fails, and that prompt holds the
  user's message, the persona's name, role, bio, personality and stack, and the file
  instruction.
\<close>

theorem chat_known_persona:
  assumes "find_persona nm = Some p"
  shows "\<exists>prompt. chat_with_persona gen model msg nm fc
                   = (case gen model prompt of None \<Rightarrow> filler_reply | Some t \<Rightarrow> t)
           \<and> sublist msg prompt \<and> sublist (dev_name p) prompt \<and> sublist (dev_role p) prompt
           \<and> sublist (dev_bio p) prompt \<and> sublist (dev_style p) prompt \<and> sublist (dev_stack p) prompt
           \<and> sublist (file_instruction fc) prompt"
  using assms roleplay_prompt_parts [of msg p "file_instruction fc"]
  by (auto simp: chat_with_persona_def)

theorem chat_known_persona_witness:
  "\<exists>prompt. chat_with_persona (\<lambda>_ _. None) ''gemini-1.5-flash'' ''hi'' ''Bob Smith'' None
              = (case (\<lambda>_ _. None :: string option) ''gemini-1.5-flash'' prompt of None \<Rightarrow> filler_reply | Some t \<Rightarrow> t)
           \<and> sublist ''hi'' prompt \<and> sublist ''Bob Smith'' prompt \<and> sublist ''Logical & Blunt'' prompt"
proof -
  have "find_persona ''Bob Smith'' = Some (developers ! 1)" by (simp add: find_persona_def developers_def)
  from chat_known_persona [OF this, of "\<lambda>_ _. None" "''gemini-1.5-flash''" "''hi''" None]
  show ?thesis by (simp add: developers_def) blast
qed

text \<open>
  C17: the file instruction is empty exactly when the file context is falsy in Python
  (\<open>None\<close> or the empty string), and otherwise names the file.
\<close>

theorem file_instruction_truthy:
  "(file_instruction fc = [] \<longleftrightarrow> fc = None \<or> fc = Some [])
   \<and> (\<forall>f. fc = Some f \<longrightarrow> sublist f (file_instruction fc))"
proof (cases fc)
  case None
  then show ?thesis by (simp add: file_instruction_def)
next
  case (Some f)
  show ?thesis
  proof (cases "f = []")
    case True
    with Some show ?thesis by (simp add: file_instruction_def)
  next
    case False
    have "sublist f (file_instruction (Some f))"
      unfolding file_instruction_Some [OF False] by (rule sublist_appendI)
    moreover have "file_instruction (Some f) \<noteq> []"
      using False by (simp add: file_instruction_def)
    ultimately show ?thesis using Some False by simp
  qed
qed

theorem file_instruction_truthy_witness:
  "file_instruction (Some ''a.py'') \<noteq> [] \<and> sublist ''a.py'' (file_instruction (Some ''a.py''))"
  using file_instruction_truthy [of "Some ''a.py''"] by simp

end
