(* ===== verification/Matchmaker.thy ===== *)
theory Matchmaker
  imports Backend
begin

text \<open>
  The matchmaker, \<open>find_best_match(user_bio)\<close> of src/app.py (lines 56--71): it
  serialises the whole directory with \<open>json.dumps\<close> into a prompt, sends the prompt to
  the selected model, removes the markdown fences \<open>```json\<close> and \<open>```\<close> from the answer,
  strips it and parses it with \<open>json.loads\<close>. Any exception of the call or of the parser
  gives the fixed dict \<open>{"name": "Error", "reason": "AI busy."}\<close>. Nothing checks the
  parsed value: it is returned as it is, whatever JSON value it is.
\<close>

definition match_prompt :: "string \<Rightarrow> string" where
  \<open>match_prompt user_bio =
     prompt_text
       [''Act as a CTO matchmaker.'',
        ''User Bio: "'' @ user_bio @ ''"'',
        ''Community Database: '' @ dumps developers_json,
        '''',
        ''Task: Select the ONE best person from the database to work with this user.'',
        ''Return JSON only: {"name": "Name from DB", "reason": "Why"}'']\<close>

definition clean_response :: "string \<Rightarrow> string" where
  "clean_response text = py_strip (py_replace ''```'' [] (py_replace ''```json'' [] text))"

definition match_error :: json where
  "match_error = JObj [(''name'', JStr ''Error''), (''reason'', JStr ''AI busy.'')]"

definition find_best_match :: "generator \<Rightarrow> string \<Rightarrow> string \<Rightarrow> json" where
  "find_best_match gen model user_bio =
     (case gen model (match_prompt user_bio) of
        None \<Rightarrow> match_error
      | Some text \<Rightarrow>
          (case py_json_loads (clean_response text) of
             None \<Rightarrow> match_error
           | Some v \<Rightarrow> v))"

lemma fence_replicate: "''```'' = replicate 3 (CHR 0x60)"
  by (simp add: numeral_3_eq_3)

lemma no_fence_after_replace: "\<not> sublist ''```'' (py_replace ''```'' [] s)"
  using replace_run_gone [of 3 "CHR 0x60" s] by (simp add: py_replace_def fence_replicate)

lemma clean_response_fenced:
  assumes "CHR ''`'' \<notin> set body"
  shows "clean_response (''```json'' @ nl @ CHR ''{'' # body @ ''}'' @ nl @ ''```'') = CHR ''{'' # body @ ''}''"
proof -
  let ?x = "nl @ CHR ''{'' # body @ ''}'' @ nl"
  have nb: "CHR ''`'' \<notin> set ?x" using assms by simp
  have "py_replace ''```json'' [] (''```json'' @ ?x @ ''```'') = ?x @ ''```''"
    using replace_nonempty_skip [of "''```json''" ?x "[]" "''```''"] nb
    by (simp add: py_replace_def)
  moreover have "py_replace ''```'' [] (?x @ ''```'') = ?x"
    using replace_nonempty_skip [of "''```''" ?x "[]" "''```''"] nb
    by (simp add: py_replace_def)
  moreover have "lead_space (CHR ''{'' # body @ [CHR ''}'', CHR 0x0A]) = None"
    by (simp add: lead_space_def py_space_seqs_def)
  moreover have "trail_space (CHR ''{'' # body @ [CHR ''}'']) = None"
    by (simp add: trail_space_def py_space_seqs_def suffix_to_prefix)
  ultimately show ?thesis
    using py_strip_nl_wrap [of "CHR ''{'' # body @ [CHR ''}'']"] by (simp add: clean_response_def)
qed

lemma clean_response_bare:
  assumes "CHR ''`'' \<notin> set body"
  shows "clean_response (CHR ''{'' # body @ ''}'') = CHR ''{'' # body @ ''}''"
proof -
  let ?x = "CHR ''{'' # body @ ''}''"
  have "py_replace ''```json'' [] ?x = ?x" and "py_replace ''```'' [] ?x = ?x"
    using replace_nonempty_skip [of "''```json''" ?x "[]" "[]"]
      replace_nonempty_skip [of "''```''" ?x "[]" "[]"] assms
    by (simp_all add: py_replace_def)
  moreover have "lead_space ?x = None"
    by (simp add: lead_space_def py_space_seqs_def)
  moreover have "trail_space ?x = None"
    by (simp add: trail_space_def py_space_seqs_def suffix_to_prefix)
  ultimately show ?thesis by (simp add: clean_response_def py_strip_def py_lstrip_None py_rstrip_None)
qed

subsection \<open>Properties of the matchmaker\<close>

text \<open>
  C18: \<open>find_best_match\<close> never raises and returns, on every path: the value
  \<open>json.loads\<close> made of the cleaned answer, whatever JSON value it is, when the service
  answered and the answer parsed; the error dict when the service failed or the answer
  did not parse.
\<close>

theorem find_best_match_result:
  "(gen model (match_prompt bio) = Some t \<longrightarrow> py_json_loads (clean_response t) = Some v
      \<longrightarrow> find_best_match gen model bio = v)
   \<and> (gen model (match_prompt bio) = None \<longrightarrow> find_best_match gen model bio = match_error)
   \<and> (gen model (match_prompt bio) = Some t \<longrightarrow> py_json_loads (clean_response t) = None
      \<longrightarrow> find_best_match gen model bio = match_error)"
  by (simp add: find_best_match_def)

text \<open>An answer that is valid JSON but not an object is returned as it is.\<close>

theorem find_best_match_result_witness:
  "find_best_match (\<lambda>_ _. Some ''```json[1, 2]```'') ''gemini-1.5-flash'' ''I like Go''
   = JArr [JInt 1, JInt 2]"
proof -
  have l: "py_json_loads (clean_response ''```json[1, 2]```'') = Some (JArr [JInt 1, JInt 2])"
    by code_simp
  show ?thesis
    using find_best_match_result [of "\<lambda>_ _. Some ''```json[1, 2]```''" "''gemini-1.5-flash''"
        "''I like Go''" "''```json[1, 2]```''" "JArr [JInt 1, JInt 2]"] l
    by simp
qed

text \<open>
  C19: the cleaning of line 68 turns the answer the prompt asks for, a JSON object with
  or without a \<open>```json\<close> fence on lines of its own, into exactly the object's text
  (when the object holds no backtick); and whatever the answer, the cleaned text holds no
  \<open>```\<close> and neither starts nor ends with whitespace.
\<close>

theorem clean_response_clean:
  "(CHR ''`'' \<notin> set body \<longrightarrow>
      clean_response (''```json'' @ nl @ CHR ''{'' # body @ ''}'' @ nl @ ''```'') = CHR ''{'' # body @ ''}''
      \<and> clean_response (CHR ''{'' # body @ ''}'') = CHR ''{'' # body @ ''}'')
   \<and> \<not> sublist ''```'' (clean_response t)
   \<and> lead_space (clean_response t) = None \<and> trail_space (clean_response t) = None"
proof -
  let ?r = "py_replace ''```'' [] (py_replace ''```json'' [] t)"
  have "\<not> sublist ''```'' (py_strip ?r)"
    using no_fence_after_replace py_strip_sublist sublist_order.order.trans by blast
  then show ?thesis
    using py_strip_ends [of ?r] clean_response_fenced [of body] clean_response_bare [of body]
    by (simp add: clean_response_def)
qed

theorem clean_response_clean_witness:
  \<open>clean_response (''```json'' @ nl @ ''{"name": "Bob Smith"}'' @ nl @ ''```'') = ''{"name": "Bob Smith"}''\<close>
  using clean_response_clean [of \<open>''"name": "Bob Smith"''\<close> "[]"] by simp

text \<open>
  C20: the matchmaking prompt carries the user's bio and the whole directory as the text
  \<open>json.dumps(developers)\<close>.
\<close>

theorem match_prompt_contents:
  "sublist bio (match_prompt bio) \<and> sublist (dumps developers_json) (match_prompt bio)"
proof
  show "sublist bio (match_prompt bio)"
    unfolding match_prompt_def
    by (rule sublist_prompt_text [OF sublist_appendI [of bio "''User Bio: \"''" "''\"''"]]) simp
  show "sublist (dumps developers_json) (match_prompt bio)"
    unfolding match_prompt_def
    by (rule sublist_prompt_text [OF sublist_append_leftI [of "dumps developers_json" "''Community Database: ''"]])
       simp
qed

end
