(* ===== verification/Session.thy ===== *)
theory Session
  imports Responder Matchmaker
begin

text \<open>
  The session: \<open>st.session_state\<close> with its three fields \<open>messages\<close>,
  \<open>user_profile\<close> and \<open>selected_match\<close> (src/app.py lines 26--28), and the handlers of
  the Streamlit script that change it. Streamlit reruns the whole script on every user
  interaction, so one interaction is one \<open>event\<close> and one run of the script is one
  \<open>step\<close>: the sidebar recomputes the selected model from the key and the service, then
  exactly the branch of the widget the user touched runs. A widget that the script does
  not render in the current state (the login form once logged in, the chat tab with no
  selection) cannot be touched, so its event leaves the state as it is. An exception the
  script does not catch ends the run with \<open>Raised\<close>; the changes made to
  \<open>st.session_state\<close> before it stay, as they do in Streamlit. The interface to the
  outside world is the record \<open>env\<close>: the API key typed in the sidebar and the two
  service calls of theory \<open>Backend\<close>, any of which may differ from one run to the next.
\<close>

record profile =
  prof_name :: string
  prof_bio :: string

text \<open>A Streamlit \<open>UploadedFile\<close>: its \<open>.name\<close>, its \<open>.type\<close> and its bytes.\<close>

record upload =
  up_name :: string
  up_type :: string
  up_data :: string

datatype msg_role = User | Assistant

record attachment =
  file_data :: upload
  file_type :: string
  file_name :: string

record message =
  msg_role :: msg_role
  content :: string
  attachment :: "attachment option"

record session =
  messages :: "message list"
  user_profile :: "profile option"
  selected_match :: "persona option"

record env =
  api_key :: string
  lister :: model_lister
  generate :: generator

datatype event =
    ClearChat
  | JoinCommunity string string
  | Logout
  | MessageDev int
  | FindMatch
  | SendFile "upload option"
  | SendText string

datatype outcome = Completed | Raised py_exc

definition init_session :: session where
  "init_session = \<lparr>messages = [], user_profile = None, selected_match = None\<rparr>"

definition run_model :: "env \<Rightarrow> string" where
  "run_model e = selected_model (api_key e) (lister e)"

subsection \<open>Handlers\<close>

text \<open>Sidebar, "Clear Chat" (lines 51--53): rendered in every state.\<close>

definition clear_chat :: "session \<Rightarrow> session" where
  "clear_chat s = s\<lparr>messages := []\<rparr>"

text \<open>Login form (lines 111--118): the profile is stored only when a key was entered.\<close>

definition join_community :: "env \<Rightarrow> string \<Rightarrow> string \<Rightarrow> session \<Rightarrow> session" where
  "join_community e name bio s =
     (if api_key e \<noteq> [] then s\<lparr>user_profile := Some \<lparr>prof_name = name, prof_bio = bio\<rparr>\<rparr> else s)"

text \<open>"Logout" (lines 127--129): only the profile is dropped.\<close>

definition logout :: "session \<Rightarrow> session" where
  "logout s = s\<lparr>user_profile := None\<rparr>"

text \<open>Browse tab, the button of the persona with id \<open>k\<close> (lines 137--147).\<close>

definition message_dev :: "int \<Rightarrow> session \<Rightarrow> session" where
  "message_dev k s =
     (case find (\<lambda>d. dev_id d = k) developers of
        None \<Rightarrow> s
      | Some d \<Rightarrow> s\<lparr>selected_match := Some d, messages := []\<rparr>)"

text \<open>
  Matchmaker tab (lines 152--162). \<open>match_result.get("name")\<close> raises
  \<open>AttributeError\<close> unless the parsed value is a dict; \<open>match_result["name"]\<close> and
  \<open>match_result['reason']\<close> raise \<open>KeyError\<close> on a missing key; the \<open>next(...)\<close>
  without default raises \<open>StopIteration\<close> when no persona has the returned name. The
  selection and the cleared log are stored before the reason is read.
\<close>

definition apply_match :: "json \<Rightarrow> session \<Rightarrow> session \<times> outcome" where
  "apply_match r s =
     (case r of
        JObj kvs \<Rightarrow>
          if json_get kvs ''name'' \<noteq> Some (JStr ''Error'') then
            (case json_get kvs ''name'' of
               None \<Rightarrow> (s, Raised (KeyError ''name''))
             | Some nm \<Rightarrow>
                 (case find (\<lambda>d. JStr (dev_name d) = nm) developers of
                    None \<Rightarrow> (s, Raised StopIteration)
                  | Some d \<Rightarrow>
                      (let s' = s\<lparr>selected_match := Some d, messages := []\<rparr>
                       in case json_get kvs ''reason'' of
                            None \<Rightarrow> (s', Raised (KeyError ''reason''))
                          | Some _ \<Rightarrow> (s', Completed))))
          else (s, Completed)
      | _ \<Rightarrow> (s, Raised AttributeError))"

definition run_matchmaker :: "env \<Rightarrow> profile \<Rightarrow> session \<Rightarrow> session \<times> outcome" where
  "run_matchmaker e p s = apply_match (find_best_match (generate e) (run_model e) (prof_bio p)) s"

text \<open>Chat tab, "Send File" with a file chosen (lines 205--214).\<close>

definition file_message :: "upload \<Rightarrow> message" where
  "file_message u =
     \<lparr>msg_role = User, content = ''Shared a file: '' @ up_name u,
      attachment = Some \<lparr>file_data = u, file_type = up_type u, file_name = up_name u\<rparr>\<rparr>"

definition send_file :: "upload \<Rightarrow> session \<Rightarrow> session" where
  "send_file u s = s\<lparr>messages := messages s @ [file_message u]\<rparr>"

text \<open>
  Chat tab, a text submitted (lines 217--234). After the user's message is appended, the
  message before it (\<open>messages[-2]\<close>) gives the file context when it is a user
  message; \<open>last_msg.get("file_name")\<close> is \<open>None\<close> for a text message.
\<close>

definition file_context_of :: "message list \<Rightarrow> string option" where
  "file_context_of msgs =
     (if 1 < length msgs then
        (let m = msgs ! (length msgs - 2)
         in if msg_role m = User then map_option file_name (attachment m) else None)
      else None)"

definition user_message :: "string \<Rightarrow> message" where
  "user_message t = \<lparr>msg_role = User, content = t, attachment = None\<rparr>"

definition assistant_message :: "string \<Rightarrow> message" where
  "assistant_message t = \<lparr>msg_role = Assistant, content = t, attachment = None\<rparr>"

definition send_text :: "env \<Rightarrow> persona \<Rightarrow> string \<Rightarrow> session \<Rightarrow> session" where
  "send_text e target prompt s =
     (let msgs = messages s @ [user_message prompt];
          fc = file_context_of msgs;
          reply = chat_with_persona (generate e) (run_model e) prompt (dev_name target) fc
      in s\<lparr>messages := msgs @ [assistant_message reply]\<rparr>)"

subsection \<open>One run of the script\<close>

fun step :: "env \<Rightarrow> session \<Rightarrow> event \<Rightarrow> session \<times> outcome" where
  "step e s ClearChat = (clear_chat s, Completed)"
| "step e s (JoinCommunity name bio) =
     (if user_profile s = None then join_community e name bio s else s, Completed)"
| "step e s Logout = (if user_profile s \<noteq> None then logout s else s, Completed)"
| "step e s (MessageDev k) = (if user_profile s \<noteq> None then message_dev k s else s, Completed)"
| "step e s FindMatch =
     (case user_profile s of None \<Rightarrow> (s, Completed) | Some p \<Rightarrow> run_matchmaker e p s)"
| "step e s (SendFile u) =
     (case (user_profile s, selected_match s, u) of
        (Some _, Some _, Some f) \<Rightarrow> (send_file f s, Completed)
      | _ \<Rightarrow> (s, Completed))"
| "step e s (SendText t) =
     (case (user_profile s, selected_match s) of
        (Some _, Some d) \<Rightarrow> (if t = [] then s else send_text e d t s, Completed)
      | _ \<Rightarrow> (s, Completed))"

fun run :: "session \<Rightarrow> (env \<times> event) list \<Rightarrow> session" where
  "run s [] = s"
| "run s ((e, ev) # evs) = run (fst (step e s ev)) evs"

inductive reachable :: "session \<Rightarrow> bool" where
  init: "reachable init_session"
| step: "reachable s \<Longrightarrow> reachable (fst (step e s ev))"

subsection \<open>The session invariant\<close>

definition is_file_msg :: "message \<Rightarrow> bool" where
  "is_file_msg m \<longleftrightarrow> (case attachment m of Some a \<Rightarrow> m = file_message (file_data a) | None \<Rightarrow> False)"

definition is_text_msg :: "message \<Rightarrow> bool" where
  "is_text_msg m \<longleftrightarrow> m = user_message (content m) \<and> content m \<noteq> []"

definition is_reply_msg :: "message \<Rightarrow> bool" where
  "is_reply_msg m \<longleftrightarrow> m = assistant_message (content m)"

fun wf_log :: "message list \<Rightarrow> bool" where
  "wf_log [] = True"
| "wf_log [m] = is_file_msg m"
| "wf_log (m # m' # ms) =
     (if is_file_msg m then wf_log (m' # ms) else is_text_msg m \<and> is_reply_msg m' \<and> wf_log ms)"

definition session_inv :: "session \<Rightarrow> bool" where
  "session_inv s \<longleftrightarrow>
     set_option (selected_match s) \<subseteq> set developers
     \<and> (selected_match s = None \<longrightarrow> messages s = []) \<and> wf_log (messages s)"

lemma file_message_is_file [simp]: "is_file_msg (file_message u)"
  by (simp add: is_file_msg_def file_message_def)

lemma user_message_not_file [simp]: "\<not> is_file_msg (user_message t)"
  by (simp add: is_file_msg_def user_message_def)

lemma is_file_msg_None [simp]: "attachment m = None \<Longrightarrow> \<not> is_file_msg m"
  by (simp add: is_file_msg_def)

lemma wf_log_file_Cons [simp]: "is_file_msg m \<Longrightarrow> wf_log (m # ys) = wf_log ys"
  by (cases ys) simp_all

lemma is_text_user_message [simp]: "t \<noteq> [] \<Longrightarrow> is_text_msg (user_message t)"
  by (simp add: is_text_msg_def user_message_def)

lemma is_reply_assistant_message [simp]: "is_reply_msg (assistant_message r)"
  by (simp add: is_reply_msg_def assistant_message_def)

lemma attachment_user_message [simp]: "attachment (user_message t) = None"
  by (simp add: user_message_def)

lemma attachment_assistant_message [simp]: "attachment (assistant_message t) = None"
  by (simp add: assistant_message_def)

lemma wf_log_append: "wf_log xs \<Longrightarrow> wf_log (xs @ ys) = wf_log ys"
  by (induction xs rule: wf_log.induct) (auto split: if_splits)

lemma wf_log_file [simp]: "wf_log [file_message u]"
  by simp

lemma wf_log_text [simp]: "t \<noteq> [] \<Longrightarrow> wf_log [user_message t, assistant_message r]"
  by simp

lemma wf_log_last:
  "wf_log xs \<Longrightarrow> xs \<noteq> [] \<Longrightarrow> is_file_msg (last xs) \<or> is_reply_msg (last xs)"
  by (induction xs rule: wf_log.induct) (auto split: if_splits)

lemma message_dev_inv: "session_inv s \<Longrightarrow> session_inv (message_dev k s)"
  by (auto simp: session_inv_def message_dev_def split: option.splits)

lemma apply_match_inv: "session_inv s \<Longrightarrow> session_inv (fst (apply_match r s))"
  by (auto simp: session_inv_def apply_match_def Let_def split: json.splits option.splits)

lemma send_file_inv: "session_inv s \<Longrightarrow> selected_match s \<noteq> None \<Longrightarrow> session_inv (send_file u s)"
  by (auto simp: session_inv_def send_file_def wf_log_append)

lemma send_text_inv:
  "session_inv s \<Longrightarrow> selected_match s \<noteq> None \<Longrightarrow> t \<noteq> [] \<Longrightarrow> session_inv (send_text e d t s)"
  by (auto simp: session_inv_def send_text_def Let_def wf_log_append)

lemma step_inv:
  assumes inv: "session_inv s"
  shows "session_inv (fst (step e s ev))"
proof (cases ev)
  case ClearChat
  with inv show ?thesis by (simp add: session_inv_def clear_chat_def)
next
  case (JoinCommunity n b)
  with inv show ?thesis by (simp add: session_inv_def join_community_def)
next
  case Logout
  with inv show ?thesis by (simp add: session_inv_def logout_def)
next
  case (MessageDev k)
  with inv show ?thesis by (simp add: message_dev_inv)
next
  case FindMatch
  with inv show ?thesis by (simp add: run_matchmaker_def apply_match_inv split: option.splits)
next
  case (SendFile u)
  with inv show ?thesis by (auto simp: send_file_inv split: option.splits)
next
  case (SendText t)
  with inv show ?thesis by (auto simp: send_text_inv split: option.splits)
qed

lemma reachable_inv: "reachable s \<Longrightarrow> session_inv s"
proof (induction rule: reachable.induct)
  case init
  show ?case by (simp add: session_inv_def init_session_def)
next
  case (step s e ev)
  from step.IH show ?case by (rule step_inv)
qed
lemma roster_not_error [simp]: "d \<in> set developers \<Longrightarrow> dev_name d \<noteq> ''Error''"
  by (auto simp: developers_def)

lemma find_by_id: "d \<in> set developers \<Longrightarrow> find (\<lambda>x. dev_id x = dev_id d) developers = Some d"
  using developers_ids_distinct by (rule find_key_distinct)

lemma find_by_name:
  "d \<in> set developers \<Longrightarrow> find (\<lambda>x. dev_name x = dev_name d) developers = Some d"
  using find_persona_member by (simp add: find_persona_def)

lemma find_by_json_name_None:
  "nm \<notin> JStr ` dev_name ` set developers \<Longrightarrow> find (\<lambda>x. JStr (dev_name x) = nm) developers = None"
  by (auto simp: find_None_iff')

lemma run_matchmaker_eq:
  "find_best_match (generate e) (run_model e) (prof_bio p) = r \<Longrightarrow> run_matchmaker e p s = apply_match r s"
  by (simp add: run_matchmaker_def)

lemma find_best_match_parsed:
  "generate e (run_model e) (match_prompt bio) = Some text \<Longrightarrow> py_json_loads (clean_response text) = Some v
   \<Longrightarrow> find_best_match (generate e) (run_model e) bio = v"
  by (simp add: find_best_match_def)


lemma match_error_keeps [simp]: "apply_match match_error s = (s, Completed)"
  by (simp add: apply_match_def match_error_def json_get_def)

lemma file_context_of_snoc:
  "file_context_of (msgs @ [m]) =
     (if msgs = [] then None
      else if msg_role (last msgs) = User then map_option file_name (attachment (last msgs)) else None)"
  by (auto simp: file_context_of_def Let_def nth_append last_conv_nth)

lemma file_context_of_single [simp]: "file_context_of [m] = None"
  by (simp add: file_context_of_def)

lemma is_file_msgE: "is_file_msg m \<Longrightarrow> \<exists>u. m = file_message u"
  by (auto simp: is_file_msg_def split: option.splits)

lemma is_reply_role: "is_reply_msg m \<Longrightarrow> msg_role m = Assistant"
  by (simp add: is_reply_msg_def assistant_message_def) (metis message.select_convs(1))

lemma reachable_bob_chat:
  "reachable \<lparr>messages = [], user_profile = Some \<lparr>prof_name = ''Sam'', prof_bio = ''loves Go backends''\<rparr>,
              selected_match = Some (developers ! 1)\<rparr>"
proof -
  let ?e = "\<lparr>api_key = ''k'', lister = (\<lambda>_. None), generate = (\<lambda>_ _. None)\<rparr> :: env"
  have "\<lparr>messages = [], user_profile = Some \<lparr>prof_name = ''Sam'', prof_bio = ''loves Go backends''\<rparr>,
          selected_match = Some (developers ! 1)\<rparr>
        = fst (step ?e (fst (step ?e init_session (JoinCommunity ''Sam'' ''loves Go backends''))) (MessageDev 2))"
    by (simp add: init_session_def join_community_def message_dev_def developers_def)
  then show ?thesis by (metis reachable.init reachable.step)
qed

subsection \<open>Properties of the session\<close>

text \<open>
  C1: in every reachable state the selected persona, if any, is one of the roster, the
  log is empty while nothing is selected, and the log is a sequence of blocks, each
  either one shared file or a non-empty user text followed by exactly one reply.
\<close>

theorem reachable_invariant:
  assumes "reachable s"
  shows "set_option (selected_match s) \<subseteq> set developers
         \<and> (selected_match s = None \<longrightarrow> messages s = []) \<and> wf_log (messages s)"
  using reachable_inv [OF assms] by (simp add: session_inv_def)

theorem reachable_invariant_witness:
  "reachable \<lparr>messages = [], user_profile = Some \<lparr>prof_name = ''Sam'', prof_bio = ''loves Go backends''\<rparr>,
              selected_match = Some (developers ! 1)\<rparr>
   \<and> set_option (Some (developers ! 1)) \<subseteq> set developers \<and> wf_log []"
  using reachable_invariant [OF reachable_bob_chat] reachable_bob_chat by simp

text \<open>
  C2: pressing the "Message" button of a persona, in any logged-in state, selects that
  persona and empties the log, whatever the log held before.
\<close>
theorem select_clears_log:
  assumes "user_profile s \<noteq> None" and "d \<in> set developers"
  shows "step e s (MessageDev (dev_id d)) = (s\<lparr>selected_match := Some d, messages := []\<rparr>, Completed)"
  using assms by (simp add: message_dev_def find_by_id)

theorem select_clears_log_witness:
  "step \<lparr>api_key = ''k'', lister = (\<lambda>_. None), generate = (\<lambda>_ _. None)\<rparr>
     \<lparr>messages = [user_message ''hi'', assistant_message ''...''],
      user_profile = Some \<lparr>prof_name = ''Sam'', prof_bio = ''loves Go backends''\<rparr>,
      selected_match = Some (developers ! 0)\<rparr> (MessageDev 2)
   = (\<lparr>messages = [], user_profile = Some \<lparr>prof_name = ''Sam'', prof_bio = ''loves Go backends''\<rparr>,
       selected_match = Some (developers ! 1)\<rparr>, Completed)"
proof -
  have d: "developers ! 1 \<in> set developers" and i: "dev_id (developers ! 1) = 2"
    by (simp_all add: developers_def)
  show ?thesis using select_clears_log [OF _ d, of _ "\<lparr>api_key = ''k'', lister = (\<lambda>_. None), generate = (\<lambda>_ _. None)\<rparr>"] i
    by simp
qed

text \<open>
  C3: sending a non-empty text in the chat appends exactly two messages, the user's text
  and then the responder's reply to it, and changes nothing else.
\<close>
theorem send_text_appends_two:
  assumes "user_profile s \<noteq> None" and "selected_match s = Some d" and "t \<noteq> []"
  shows "step e s (SendText t) =
     (s\<lparr>messages := messages s @ [user_message t, assistant_message
         (chat_with_persona (generate e) (run_model e) t (dev_name d)
            (file_context_of (messages s @ [user_message t])))]\<rparr>, Completed)"
  using assms by (auto simp: send_text_def Let_def)

text \<open>The scenario of the spec: Sam chats with Bob Smith and says "hi".\<close>

theorem send_text_appends_two_witness:
  "step \<lparr>api_key = ''k'', lister = (\<lambda>_. None), generate = (\<lambda>_ _. Some ''Hey Sam'')\<rparr>
     \<lparr>messages = [], user_profile = Some \<lparr>prof_name = ''Sam'', prof_bio = ''loves Go backends''\<rparr>,
      selected_match = Some (developers ! 1)\<rparr> (SendText ''hi'')
   = (\<lparr>messages = [user_message ''hi'', assistant_message ''Hey Sam''],
       user_profile = Some \<lparr>prof_name = ''Sam'', prof_bio = ''loves Go backends''\<rparr>,
       selected_match = Some (developers ! 1)\<rparr>, Completed)"
proof -
  have c: "chat_with_persona (\<lambda>_ _. Some ''Hey Sam'') m ''hi'' (dev_name (developers ! 1)) fc = ''Hey Sam''"
    for m fc by (simp add: chat_with_persona_def find_persona_def developers_def)
  show ?thesis
    using send_text_appends_two [of "\<lparr>messages = [], user_profile = Some \<lparr>prof_name = ''Sam'', prof_bio = ''loves Go backends''\<rparr>,
      selected_match = Some (developers ! 1)\<rparr>" "developers ! 1" "''hi''"
      "\<lparr>api_key = ''k'', lister = (\<lambda>_. None), generate = (\<lambda>_ _. Some ''Hey Sam'')\<rparr>"] c
    by simp
qed

text \<open>
  C4: "Send File" appends exactly one user message carrying the upload when a file is
  chosen and nothing otherwise; it never produces a reply.
\<close>
theorem send_file_appends_one:
  assumes "user_profile s \<noteq> None" and "selected_match s \<noteq> None"
  shows "step e s (SendFile u) =
     ((case u of None \<Rightarrow> s | Some f \<Rightarrow> s\<lparr>messages := messages s @ [file_message f]\<rparr>), Completed)"
  using assms by (auto simp: send_file_def split: option.splits)

theorem send_file_appends_one_witness:
  "step \<lparr>api_key = ''k'', lister = (\<lambda>_. None), generate = (\<lambda>_ _. None)\<rparr>
     \<lparr>messages = [], user_profile = Some \<lparr>prof_name = ''Sam'', prof_bio = ''loves Go backends''\<rparr>,
      selected_match = Some (developers ! 1)\<rparr>
     (SendFile (Some \<lparr>up_name = ''ui.png'', up_type = ''image/png'', up_data = ''PNG''\<rparr>))
   = (\<lparr>messages = [file_message \<lparr>up_name = ''ui.png'', up_type = ''image/png'', up_data = ''PNG''\<rparr>],
       user_profile = Some \<lparr>prof_name = ''Sam'', prof_bio = ''loves Go backends''\<rparr>,
       selected_match = Some (developers ! 1)\<rparr>, Completed)"
  using send_file_appends_one [of "\<lparr>messages = [], user_profile = Some \<lparr>prof_name = ''Sam'', prof_bio = ''loves Go backends''\<rparr>,
      selected_match = Some (developers ! 1)\<rparr>"] by simp

text \<open>
  C5: when the model's answer, with its fences removed, parses to an object whose
  \<open>"name"\<close> is a roster name and which has a \<open>"reason"\<close>, the matchmaker selects
  that persona and empties the log.
\<close>
theorem matchmaker_selects:
  assumes "user_profile s = Some p"
    and "generate e (run_model e) (match_prompt (prof_bio p)) = Some text"
    and "py_json_loads (clean_response text) = Some (JObj kvs)"
    and "json_get kvs ''name'' = Some (JStr (dev_name d))" and "d \<in> set developers"
    and "json_get kvs ''reason'' \<noteq> None"
  shows "step e s FindMatch = (s\<lparr>selected_match := Some d, messages := []\<rparr>, Completed)"
proof -
  have "run_matchmaker e p s = apply_match (JObj kvs) s"
    using assms(2,3) by (intro run_matchmaker_eq find_best_match_parsed)
  then show ?thesis
    using assms by (auto simp: apply_match_def find_by_name split: option.splits)
qed

theorem matchmaker_selects_witness:
  "step \<lparr>api_key = ''k'', lister = (\<lambda>_. None),
         generate = (\<lambda>_ _. Some ''```json {\"name\": \"Alice Chen\", \"reason\": \"UI focus\"} ```'')\<rparr>
     \<lparr>messages = [user_message ''hi''], user_profile = Some \<lparr>prof_name = ''Sam'', prof_bio = ''frontend design''\<rparr>,
      selected_match = None\<rparr> FindMatch
   = (\<lparr>messages = [], user_profile = Some \<lparr>prof_name = ''Sam'', prof_bio = ''frontend design''\<rparr>,
       selected_match = Some (hd developers)\<rparr>, Completed)"
  (is "step ?e ?s FindMatch = _")
proof -
  let ?p = "\<lparr>prof_name = ''Sam'', prof_bio = ''frontend design''\<rparr>"
  let ?t = "''```json {\"name\": \"Alice Chen\", \"reason\": \"UI focus\"} ```''"
  let ?kvs = "[(''name'', JStr ''Alice Chen''), (''reason'', JStr ''UI focus'')]"
  have l: "py_json_loads (clean_response ?t) = Some (JObj ?kvs)"
    by code_simp
  have d: "hd developers \<in> set developers" by (simp add: developers_def)
  have "step ?e ?s FindMatch = (?s\<lparr>selected_match := Some (hd developers), messages := []\<rparr>, Completed)"
  proof (rule matchmaker_selects [OF _ _ l _ d])
    show "user_profile ?s = Some ?p" by simp
    show "generate ?e (run_model ?e) (match_prompt (prof_bio ?p)) = Some ?t" by simp
    show "json_get ?kvs ''name'' = Some (JStr (dev_name (hd developers)))"
      by (simp add: json_get_def developers_def)
    show "json_get ?kvs ''reason'' \<noteq> None" by (simp add: json_get_def)
  qed
  then show ?thesis by simp
qed
text \<open>
  C6: when the service fails or its answer does not parse as JSON, the matchmaker tab
  leaves the whole session unchanged and the run completes: no failure is shown and no
  exception escapes.
\<close>
theorem matchmaker_failure_keeps_state:
  assumes "user_profile s = Some p"
    and "generate e (run_model e) (match_prompt (prof_bio p)) = None
         \<or> (\<exists>text. generate e (run_model e) (match_prompt (prof_bio p)) = Some text
                  \<and> py_json_loads (clean_response text) = None)"
  shows "step e s FindMatch = (s, Completed)"
proof -
  from assms(2) have "find_best_match (generate e) (run_model e) (prof_bio p) = match_error"
    by (auto simp: find_best_match_def)
  with assms(1) show ?thesis by (simp add: run_matchmaker_def)
qed

text \<open>The spec's scenario: the answer is not JSON; the selection is left as it was.\<close>

theorem matchmaker_failure_keeps_state_witness:
  "step \<lparr>api_key = ''k'', lister = (\<lambda>_. None), generate = (\<lambda>_ _. Some ''Sorry, I cannot help.'')\<rparr>
     \<lparr>messages = [], user_profile = Some \<lparr>prof_name = ''Sam'', prof_bio = ''frontend design''\<rparr>,
      selected_match = Some (developers ! 1)\<rparr> FindMatch
   = (\<lparr>messages = [], user_profile = Some \<lparr>prof_name = ''Sam'', prof_bio = ''frontend design''\<rparr>,
       selected_match = Some (developers ! 1)\<rparr>, Completed)"
proof -
  have l: "py_json_loads (clean_response ''Sorry, I cannot help.'') = None" by code_simp
  show ?thesis
    by (rule matchmaker_failure_keeps_state) (use l in simp_all)
qed

text \<open>
  C7: when the answer parses to an object whose \<open>"name"\<close> is not the name of any
  persona (and is not \<open>"Error"\<close>), the run ends with an uncaught \<open>StopIteration\<close>
  from the \<open>next(...)\<close> of line 156, and the session is unchanged.
\<close>
theorem matchmaker_unknown_name_raises:
  assumes "user_profile s = Some p"
    and "generate e (run_model e) (match_prompt (prof_bio p)) = Some text"
    and "py_json_loads (clean_response text) = Some (JObj kvs)"
    and "json_get kvs ''name'' = Some nm" and "nm \<noteq> JStr ''Error''"
    and "nm \<notin> JStr ` dev_name ` set developers"
  shows "step e s FindMatch = (s, Raised StopIteration)"
proof -
  have "run_matchmaker e p s = apply_match (JObj kvs) s"
    using assms(2,3) by (intro run_matchmaker_eq find_best_match_parsed)
  then show ?thesis
    using assms(1,4,5) find_by_json_name_None [OF assms(6)] by (simp add: apply_match_def)
qed

theorem matchmaker_unknown_name_raises_witness:
  "step \<lparr>api_key = ''k'', lister = (\<lambda>_. None),
         generate = (\<lambda>_ _. Some ''{\"name\": \"Zoe Park\", \"reason\": \"Go\"}'')\<rparr>
     \<lparr>messages = [], user_profile = Some \<lparr>prof_name = ''Sam'', prof_bio = ''loves Go backends''\<rparr>,
      selected_match = None\<rparr> FindMatch
   = (\<lparr>messages = [], user_profile = Some \<lparr>prof_name = ''Sam'', prof_bio = ''loves Go backends''\<rparr>,
       selected_match = None\<rparr>, Raised StopIteration)"
proof -
  have l: "py_json_loads (clean_response ''{\"name\": \"Zoe Park\", \"reason\": \"Go\"}'')
     = Some (JObj [(''name'', JStr ''Zoe Park''), (''reason'', JStr ''Go'')])" by code_simp
  have n: "JStr ''Zoe Park'' \<notin> JStr ` dev_name ` set developers" by (auto simp: developers_def)
  show ?thesis
    by (rule matchmaker_unknown_name_raises [OF _ _ l _ _ n]) (simp_all add: json_get_def)
qed

text \<open>
  C8: when the answer parses to a JSON value that is not an object, the run ends with an
  uncaught \<open>AttributeError\<close> (\<open>match_result.get\<close>), and the session is unchanged.
\<close>
theorem matchmaker_non_object_raises:
  assumes "user_profile s = Some p"
    and "generate e (run_model e) (match_prompt (prof_bio p)) = Some text"
    and "py_json_loads (clean_response text) = Some v" and "\<forall>kvs. v \<noteq> JObj kvs"
  shows "step e s FindMatch = (s, Raised AttributeError)"
proof -
  have "run_matchmaker e p s = apply_match v s"
    using assms(2,3) by (intro run_matchmaker_eq find_best_match_parsed)
  then show ?thesis
    using assms(1,4) by (cases v) (simp_all add: apply_match_def)
qed

theorem matchmaker_non_object_raises_witness:
  "step \<lparr>api_key = ''k'', lister = (\<lambda>_. None), generate = (\<lambda>_ _. Some ''```json\<newline>[\"Alice Chen\"]\<newline>```'')\<rparr>
     \<lparr>messages = [], user_profile = Some \<lparr>prof_name = ''Sam'', prof_bio = ''frontend design''\<rparr>,
      selected_match = None\<rparr> FindMatch
   = (\<lparr>messages = [], user_profile = Some \<lparr>prof_name = ''Sam'', prof_bio = ''frontend design''\<rparr>,
       selected_match = None\<rparr>, Raised AttributeError)"
proof -
  have l: "py_json_loads (clean_response ''```json\<newline>[\"Alice Chen\"]\<newline>```'')
     = Some (JArr [JStr ''Alice Chen''])" by code_simp
  show ?thesis
    by (rule matchmaker_non_object_raises [OF _ _ l]) simp_all
qed

text \<open>
  C9: when the answer names a roster persona but has no \<open>"reason"\<close>, the selection and
  the cleared log are committed and then the run ends with \<open>KeyError('reason')\<close>.
\<close>
theorem matchmaker_missing_reason_commits:
  assumes "user_profile s = Some p"
    and "generate e (run_model e) (match_prompt (prof_bio p)) = Some text"
    and "py_json_loads (clean_response text) = Some (JObj kvs)"
    and "json_get kvs ''name'' = Some (JStr (dev_name d))" and "d \<in> set developers"
    and "json_get kvs ''reason'' = None"
  shows "step e s FindMatch =
           (s\<lparr>selected_match := Some d, messages := []\<rparr>, Raised (KeyError ''reason''))"
proof -
  have "run_matchmaker e p s = apply_match (JObj kvs) s"
    using assms(2,3) by (intro run_matchmaker_eq find_best_match_parsed)
  then show ?thesis
    using assms by (simp add: apply_match_def find_by_name)
qed

theorem matchmaker_missing_reason_commits_witness:
  "step \<lparr>api_key = ''k'', lister = (\<lambda>_. None), generate = (\<lambda>_ _. Some ''{\"name\": \"Alice Chen\"}'')\<rparr>
     \<lparr>messages = [user_message ''hi''], user_profile = Some \<lparr>prof_name = ''Sam'', prof_bio = ''frontend design''\<rparr>,
      selected_match = Some (developers ! 1)\<rparr> FindMatch
   = (\<lparr>messages = [], user_profile = Some \<lparr>prof_name = ''Sam'', prof_bio = ''frontend design''\<rparr>,
       selected_match = Some (developers ! 0)\<rparr>, Raised (KeyError ''reason''))"
proof -
  have l: "py_json_loads (clean_response ''{\"name\": \"Alice Chen\"}'')
     = Some (JObj [(''name'', JStr ''Alice Chen'')])" by code_simp
  have d: "developers ! 0 \<in> set developers" by (simp add: developers_def)
  have "step \<lparr>api_key = ''k'', lister = (\<lambda>_. None), generate = (\<lambda>_ _. Some ''{\"name\": \"Alice Chen\"}'')\<rparr>
     \<lparr>messages = [user_message ''hi''], user_profile = Some \<lparr>prof_name = ''Sam'', prof_bio = ''frontend design''\<rparr>,
      selected_match = Some (developers ! 1)\<rparr> FindMatch
   = (\<lparr>messages = [user_message ''hi''], user_profile = Some \<lparr>prof_name = ''Sam'', prof_bio = ''frontend design''\<rparr>,
      selected_match = Some (developers ! 1)\<rparr>\<lparr>selected_match := Some (developers ! 0), messages := []\<rparr>,
      Raised (KeyError ''reason''))"
    by (rule matchmaker_missing_reason_commits [OF _ _ l _ d]) (simp_all add: json_get_def developers_def)
  then show ?thesis by simp
qed

text \<open>
  C10: in every reachable state, the reply appended by a text send is the service's answer
  to the roleplay prompt of the selected persona, or \<open>"..."\<close> when the service fails; the
  \<open>"Error: User left."\<close> branch of the responder is never taken.
\<close>
theorem reachable_reply_from_service:
  assumes "reachable s" and "user_profile s \<noteq> None" and "selected_match s = Some d" and "t \<noteq> []"
  shows "messages (fst (step e s (SendText t))) =
           messages s @ [user_message t, assistant_message
             (case generate e (run_model e)
                     (roleplay_prompt d t (file_instruction (file_context_of (messages s @ [user_message t]))))
              of None \<Rightarrow> filler_reply | Some r \<Rightarrow> r)]"
proof -
  have "d \<in> set developers"
    using reachable_inv [OF assms(1)] assms(3) by (simp add: session_inv_def)
  then have "find_persona (dev_name d) = Some d" by (rule find_persona_member)
  with assms(2-4) show ?thesis
    by (auto simp: send_text_def Let_def chat_with_persona_def)
qed

theorem reachable_reply_from_service_witness:
  "messages (fst (step \<lparr>api_key = ''k'', lister = (\<lambda>_. None), generate = (\<lambda>_ _. None)\<rparr>
     \<lparr>messages = [], user_profile = Some \<lparr>prof_name = ''Sam'', prof_bio = ''loves Go backends''\<rparr>,
      selected_match = Some (developers ! 1)\<rparr> (SendText ''hi'')))
   = [user_message ''hi'', assistant_message ''...'']"
  using reachable_reply_from_service [OF reachable_bob_chat, of "developers ! 1" "''hi''"
      "\<lparr>api_key = ''k'', lister = (\<lambda>_. None), generate = (\<lambda>_ _. None)\<rparr>"]
  by (simp add: filler_reply_def)

text \<open>
  C11: in every reachable state, a text send passes a file context \<open>n\<close> to the responder
  exactly when the message just before it is the share of a file named \<open>n\<close>.
\<close>
theorem reachable_file_context:
  assumes "reachable s"
  shows "file_context_of (messages s @ [user_message t]) = Some n \<longleftrightarrow>
           (messages s \<noteq> [] \<and> (\<exists>u. last (messages s) = file_message u \<and> up_name u = n))"
proof -
  have wf: "wf_log (messages s)"
    using reachable_inv [OF assms] by (simp add: session_inv_def)
  show ?thesis
  proof (cases "messages s = []")
    case True
    then show ?thesis by (simp add: file_context_of_snoc)
  next
    case False
    with wf_log_last [OF wf] have "is_file_msg (last (messages s)) \<or> is_reply_msg (last (messages s))"
      by simp
    then show ?thesis
    proof
      assume "is_file_msg (last (messages s))"
      then obtain u where "last (messages s) = file_message u" by (blast dest: is_file_msgE)
      with False show ?thesis
        by (auto simp: file_context_of_snoc file_message_def)
    next
      assume r: "is_reply_msg (last (messages s))"
      then have "\<forall>u. last (messages s) \<noteq> file_message u"
        by (auto simp: is_reply_msg_def assistant_message_def file_message_def)
      with False is_reply_role [OF r] show ?thesis by (simp add: file_context_of_snoc)
    qed
  qed
qed

theorem reachable_file_context_witness:
  "file_context_of ([file_message \<lparr>up_name = ''ui.png'', up_type = ''image/png'', up_data = ''PNG''\<rparr>]
                     @ [user_message ''thoughts?'']) = Some ''ui.png''"
proof -
  let ?e = "\<lparr>api_key = ''k'', lister = (\<lambda>_. None), generate = (\<lambda>_ _. None)\<rparr> :: env"
  let ?u = "\<lparr>up_name = ''ui.png'', up_type = ''image/png'', up_data = ''PNG''\<rparr>"
  let ?s = "\<lparr>messages = [], user_profile = Some \<lparr>prof_name = ''Sam'', prof_bio = ''loves Go backends''\<rparr>,
              selected_match = Some (developers ! 1)\<rparr>"
  have r: "reachable (fst (step ?e ?s (SendFile (Some ?u))))"
    using reachable_bob_chat by (rule reachable.step)
  have m: "messages (fst (step ?e ?s (SendFile (Some ?u)))) = [file_message ?u]"
    by (simp add: send_file_def)
  have "messages (fst (step ?e ?s (SendFile (Some ?u)))) \<noteq> []
        \<and> (\<exists>u. last (messages (fst (step ?e ?s (SendFile (Some ?u))))) = file_message u
                 \<and> up_name u = ''ui.png'')"
    unfolding m by auto
  then have "file_context_of (messages (fst (step ?e ?s (SendFile (Some ?u)))) @ [user_message ''thoughts?''])
             = Some ''ui.png''"
    using reachable_file_context [OF r] by blast
  then show ?thesis by (simp only: m)
qed

text \<open>
  C12: logging out keeps the selected persona and the chat log; logging in again, under
  any name, returns to the same chat.
\<close>
theorem logout_keeps_chat:
  assumes "user_profile s \<noteq> None" and "api_key e' \<noteq> []"
  shows "fst (step e' (fst (step e s Logout)) (JoinCommunity n b))
           = s\<lparr>user_profile := Some \<lparr>prof_name = n, prof_bio = b\<rparr>\<rparr>"
  using assms by (simp add: logout_def join_community_def)

theorem logout_keeps_chat_witness:
  "fst (step \<lparr>api_key = ''k'', lister = (\<lambda>_. None), generate = (\<lambda>_ _. None)\<rparr>
      (fst (step \<lparr>api_key = ''k'', lister = (\<lambda>_. None), generate = (\<lambda>_ _. None)\<rparr>
        \<lparr>messages = [user_message ''hi'', assistant_message ''Hey''],
         user_profile = Some \<lparr>prof_name = ''Sam'', prof_bio = ''Go''\<rparr>,
         selected_match = Some (developers ! 1)\<rparr> Logout))
      (JoinCommunity ''Kim'' ''Rust''))
   = \<lparr>messages = [user_message ''hi'', assistant_message ''Hey''],
      user_profile = Some \<lparr>prof_name = ''Kim'', prof_bio = ''Rust''\<rparr>,
      selected_match = Some (developers ! 1)\<rparr>"
  using logout_keeps_chat [of "\<lparr>messages = [user_message ''hi'', assistant_message ''Hey''],
         user_profile = Some \<lparr>prof_name = ''Sam'', prof_bio = ''Go''\<rparr>,
         selected_match = Some (developers ! 1)\<rparr>" "\<lparr>api_key = ''k'', lister = (\<lambda>_. None), generate = (\<lambda>_ _. None)\<rparr>"]
  by simp

text \<open>
  C13: "Clear Chat" empties the log, touches nothing else, and pressing it twice is the
  same as pressing it once.
\<close>
theorem clear_chat_idem:
  "fst (step e' (fst (step e s ClearChat)) ClearChat) = fst (step e s ClearChat)
   \<and> messages (fst (step e s ClearChat)) = []
   \<and> user_profile (fst (step e s ClearChat)) = user_profile s
   \<and> selected_match (fst (step e s ClearChat)) = selected_match s"
  by (simp add: clear_chat_def)

text \<open>
  C14: the login form stores the profile only when an API key has been entered, and
  otherwise leaves the state unchanged.
\<close>
theorem login_needs_key:
  assumes "user_profile s = None"
  shows "step e s (JoinCommunity n b) =
           ((if api_key e = [] then s else s\<lparr>user_profile := Some \<lparr>prof_name = n, prof_bio = b\<rparr>\<rparr>),
            Completed)"
  using assms by (simp add: join_community_def)

theorem login_needs_key_witness:
  "step \<lparr>api_key = [], lister = (\<lambda>_. None), generate = (\<lambda>_ _. None)\<rparr> init_session
     (JoinCommunity ''Sam'' ''loves Go backends'') = (init_session, Completed)"
  using login_needs_key [of init_session] by (simp add: init_session_def)
end
