(* ===== verification/JsonDecode.thy ===== *)
theory JsonDecode
  imports Json
begin

text \<open>
  Properties of the decoder \<open>py_json_loads\<close> (\<open>json.loads\<close>, src/app.py line 69).
  Every step of the scanner consumes input (\<open>jparse_consumes\<close>); hence the fuel given by
  \<open>py_json_loads\<close>, \<open>2 * length s + 1\<close>, is always enough and more fuel changes
  nothing (\<open>jparse_fuel\<close>, \<open>py_json_loads_fuel\<close>): \<open>None\<close> is always a decoding
  error, never an exhausted budget. A string of characters that the scanner copies
  verbatim (\<open>plain_char\<close>) is read back as itself, and the object the matchmaking
  prompt asks for, \<open>{"name": ..., "reason": ...}\<close>, decodes to the expected dict
  (\<open>loads_name_reason\<close>).
\<close>

text \<open>The characters \<open>scanstring\<close> copies into the result as they are.\<close>

definition plain_char :: "char \<Rightarrow> bool" where
  "plain_char c \<longleftrightarrow> c \<noteq> dq \<and> c \<noteq> bsl \<and> (0x20::nat) \<le> of_char c"

subsection \<open>Consumption\<close>

lemma skip_ws_length: "length (skip_ws s) \<le> length s"
  by (simp add: skip_ws_def length_dropWhile_le)

lemma skip_ws_Cons_length: "skip_ws s = d # r \<Longrightarrow> length r < length s"
  using skip_ws_length [of s] by simp

lemma scan_string_shorter: "scan_string acc s = Some (t, rest) \<Longrightarrow> length rest < length s"
proof (induction acc s rule: scan_string.induct)
  case (1 acc)
  then show ?case by simp
next
  case (2 acc c r)
  show ?case
  proof (cases "c = dq \<or> c \<noteq> bsl")
    case True
    with "2.prems" "2.IH"(3) show ?thesis by (auto split: if_splits)
  next
    case False
    then have c: "c \<noteq> dq" "c = bsl" by auto
    from "2.prems" c obtain e r' where r: "r = e # r'" by (cases r) auto
    show ?thesis
    proof (cases "e = CHR ''u''")
      case True
      from "2.prems" c r True obtain u r'' where h: "hex4 r' = Some (u, r'')"
        by (auto split: option.splits)
      obtain cp r3 where j: "join_surrogate u r'' = (cp, r3)" by (cases "join_surrogate u r''")
      from "2.prems" c r True h j have "scan_string (rev (utf8_enc cp) @ acc) r3 = Some (t, rest)"
        by simp
      then have "length rest < length r3"
        by (rule "2.IH"(1) [OF c r True h refl j [symmetric]])
      moreover have "length r3 \<le> length r''" using j by (rule join_surrogate_shorter)
      moreover have "length r'' < length r'" using h by (rule hex4_shorter)
      ultimately show ?thesis using r by simp
    next
      case False
      from "2.prems" c r False obtain x where x: "simple_escape e = Some x"
        by (auto split: option.splits)
      from "2.prems" c r False x have "scan_string (x # acc) r' = Some (t, rest)" by simp
      then have "length rest < length r'" by (rule "2.IH"(2) [OF c r False x])
      then show ?thesis using r by simp
    qed
  qed
qed

lemma lex_int_shorter: "lex_int s = Some (ip, r) \<Longrightarrow> length r < length s"
  by (auto simp: lex_int_def length_dropWhile_le le_imp_less_Suc split: list.splits if_splits)

lemma lex_frac_shorter: "lex_frac s = (fr, r) \<Longrightarrow> length r \<le> length s"
  by (auto simp: lex_frac_def length_dropWhile_le le_Suc_eq split: list.splits if_splits)

lemma lex_exp_shorter: "lex_exp s = (ex, r) \<Longrightarrow> length r \<le> length s"
  by (auto simp: lex_exp_def length_dropWhile_le le_Suc_eq split: list.splits if_splits prod.splits)

lemma lex_number_shorter: "lex_number s = Some (v, r) \<Longrightarrow> length r < length s"
  unfolding lex_number_def
  by (auto split: list.splits if_splits prod.splits option.splits
           dest!: lex_int_shorter lex_frac_shorter lex_exp_shorter)


lemma jvalue_other:
  assumes "jvalue (Suc n) (c # r) = Some (v, rest)"
    and "c \<noteq> dq" "c \<noteq> CHR ''{''" "c \<noteq> CHR ''[''"
  shows "(\<exists>k. rest = drop k r) \<or> lex_number (c # r) = Some (v, rest)"
proof -
  have "jvalue (Suc n) (c # r) =
     (if prefix ''null'' (c # r) then Some (JNull, drop 3 r)
      else if prefix ''true'' (c # r) then Some (JBool True, drop 3 r)
      else if prefix ''false'' (c # r) then Some (JBool False, drop 4 r)
      else if prefix ''NaN'' (c # r) then Some (JFloat ''NaN'', drop 2 r)
      else if prefix ''Infinity'' (c # r) then Some (JFloat ''Infinity'', drop 7 r)
      else if prefix ''-Infinity'' (c # r) then Some (JFloat ''-Infinity'', drop 8 r)
      else lex_number (c # r))"
    using assms(2-4) by (simp only: jvalue.simps if_False)
  with assms(1) show ?thesis
    by (auto simp del: prefix_Cons prefix_code split: if_splits)
qed
lemma jvalue_Suc_consumes:
  assumes "jvalue (Suc n) (c # r) = Some (v, rest)"
    and IHo: "\<And>acc s v rest. jobject n acc s = Some (v, rest) \<Longrightarrow> length rest < length s"
    and IHa: "\<And>acc s v rest. jarray n acc s = Some (v, rest) \<Longrightarrow> length rest < length s"
  shows "length rest < length (c # r)"
proof -
  consider (q) "c = dq" | (o) "c \<noteq> dq" "c = CHR ''{''" | (a) "c \<noteq> dq" "c \<noteq> CHR ''{''" "c = CHR ''[''"
    | (other) "c \<noteq> dq" "c \<noteq> CHR ''{''" "c \<noteq> CHR ''[''" by blast
  then show ?thesis
  proof cases
    case q
    with assms(1) show ?thesis by (auto split: option.splits dest!: scan_string_shorter)
  next
    case o
    with assms(1) obtain d r1 where sk: "skip_ws r = d # r1"
      and res: "(d = CHR ''}'' \<and> rest = r1) \<or> jobject n [] (d # r1) = Some (v, rest)"
      by (auto split: list.splits if_splits)
    have "length (d # r1) \<le> length r" using sk skip_ws_length [of r] by simp
    with res show ?thesis by (auto dest!: IHo)
  next
    case a
    with assms(1) obtain d r1 where sk: "skip_ws r = d # r1"
      and res: "(d = CHR '']'' \<and> rest = r1) \<or> jarray n [] (d # r1) = Some (v, rest)"
      by (auto split: list.splits if_splits)
    have "length (d # r1) \<le> length r" using sk skip_ws_length [of r] by simp
    with res show ?thesis by (auto dest!: IHa)
  next
    case other
    with assms(1) have "(\<exists>k. rest = drop k r) \<or> lex_number (c # r) = Some (v, rest)"
      by (intro jvalue_other)
    then show ?thesis by (auto dest!: lex_number_shorter)
  qed
qed

lemma jarray_Suc_consumes:
  assumes "jarray (Suc n) acc s = Some (v, rest)"
    and IHv: "\<And>s v rest. jvalue n s = Some (v, rest) \<Longrightarrow> length rest < length s"
    and IHa: "\<And>acc s v rest. jarray n acc s = Some (v, rest) \<Longrightarrow> length rest < length s"
  shows "length rest < length s"
proof -
  from assms(1) obtain v1 r d r1 where j: "jvalue n s = Some (v1, r)" and sk: "skip_ws r = d # r1"
    and res: "rest = r1 \<or> jarray n (v1 # acc) (skip_ws r1) = Some (v, rest)"
    by (auto split: option.splits list.splits if_splits)
  have "length r < length s" using j by (rule IHv)
  moreover have "length r1 < length r" using sk by (rule skip_ws_Cons_length)
  moreover have "length (skip_ws r1) \<le> length r1" by (rule skip_ws_length)
  ultimately show ?thesis using res by (auto dest!: IHa)
qed

lemma jobject_Suc_consumes:
  assumes "jobject (Suc n) acc s = Some (v, rest)"
    and IHv: "\<And>s v rest. jvalue n s = Some (v, rest) \<Longrightarrow> length rest < length s"
    and IHo: "\<And>acc s v rest. jobject n acc s = Some (v, rest) \<Longrightarrow> length rest < length s"
  shows "length rest < length s"
proof -
  from assms(1) obtain c r k r1 d r2 v1 r3 e r4 where s: "s = c # r"
    and sc: "scan_string [] r = Some (k, r1)" and sk1: "skip_ws r1 = d # r2"
    and j: "jvalue n (skip_ws r2) = Some (v1, r3)" and sk3: "skip_ws r3 = e # r4"
    and res: "rest = r4 \<or> jobject n ((k, v1) # acc) (skip_ws r4) = Some (v, rest)"
    by (cases s) (auto split: option.splits list.splits if_splits)
  have "length r1 < length r" using sc by (rule scan_string_shorter)
  moreover have "length r2 < length r1" using sk1 by (rule skip_ws_Cons_length)
  moreover have "length r3 < length (skip_ws r2)" using j by (rule IHv)
  moreover have "length (skip_ws r2) \<le> length r2" by (rule skip_ws_length)
  moreover have "length r4 < length r3" using sk3 by (rule skip_ws_Cons_length)
  moreover have "length (skip_ws r4) \<le> length r4" by (rule skip_ws_length)
  ultimately show ?thesis using res s by (auto dest!: IHo)
qed

lemma jparse_consumes:
  "(\<forall>s v rest. jvalue n s = Some (v, rest) \<longrightarrow> length rest < length s)
   \<and> (\<forall>acc s v rest. jarray n acc s = Some (v, rest) \<longrightarrow> length rest < length s)
   \<and> (\<forall>acc s v rest. jobject n acc s = Some (v, rest) \<longrightarrow> length rest < length s)"
proof (induction n)
  case 0
  then show ?case by simp
next
  case (Suc n)
  then have IHv: "\<And>s v rest. jvalue n s = Some (v, rest) \<Longrightarrow> length rest < length s"
    and IHa: "\<And>acc s v rest. jarray n acc s = Some (v, rest) \<Longrightarrow> length rest < length s"
    and IHo: "\<And>acc s v rest. jobject n acc s = Some (v, rest) \<Longrightarrow> length rest < length s"
    by blast+
  have "length rest < length s" if "jvalue (Suc n) s = Some (v, rest)" for s v rest
    using that jvalue_Suc_consumes [OF _ IHo IHa] by (cases s) auto
  moreover have "length rest < length s" if "jarray (Suc n) acc s = Some (v, rest)" for acc s v rest
    using that IHv IHa by (rule jarray_Suc_consumes)
  moreover have "length rest < length s" if "jobject (Suc n) acc s = Some (v, rest)" for acc s v rest
    using that IHv IHo by (rule jobject_Suc_consumes)
  ultimately show ?case by blast
qed


subsection \<open>Fuel\<close>

lemma jvalue_consumes: "jvalue n s = Some (v, rest) \<Longrightarrow> length rest < length s"
  using jparse_consumes by blast

lemma jvalue_Suc_cong:
  assumes "\<And>x. length x \<le> length r \<Longrightarrow> jobject m [] x = jobject m' [] x"
    and "\<And>x. length x \<le> length r \<Longrightarrow> jarray m [] x = jarray m' [] x"
  shows "jvalue (Suc m) (c # r) = jvalue (Suc m') (c # r)"
proof (cases "skip_ws r")
  case Nil
  then show ?thesis by (simp only: jvalue.simps list.case)
next
  case (Cons d r1)
  then have "length (d # r1) \<le> length r" using skip_ws_length [of r] by simp
  with Cons assms show ?thesis by (simp only: jvalue.simps list.case)
qed

lemma jarray_Suc_cong:
  assumes v: "jvalue m s = jvalue m' s"
    and a: "\<And>acc x. length x + 2 \<le> length s \<Longrightarrow> jarray m acc x = jarray m' acc x"
  shows "jarray (Suc m) acc s = jarray (Suc m') acc s"
proof (cases "jvalue m' s")
  case None
  with v show ?thesis by simp
next
  case (Some p)
  obtain v1 r where p: "p = (v1, r)" by (cases p)
  with Some have lr: "length r < length s" by (auto dest: jvalue_consumes)
  show ?thesis
  proof (cases "skip_ws r")
    case Nil
    with v Some p show ?thesis by simp
  next
    case (Cons d r1)
    have "length (skip_ws r1) + 2 \<le> length s"
      using lr skip_ws_Cons_length [OF Cons] skip_ws_length [of r1] by simp
    with v Some p Cons a show ?thesis by simp
  qed
qed

lemma jobject_Suc_cong:
  assumes v: "\<And>x. length x < length s \<Longrightarrow> jvalue m x = jvalue m' x"
    and o: "\<And>acc x. length x + 2 \<le> length s \<Longrightarrow> jobject m acc x = jobject m' acc x"
  shows "jobject (Suc m) acc s = jobject (Suc m') acc s"
proof (cases s)
  case Nil
  then show ?thesis by simp
next
  case (Cons c r)
  show ?thesis
  proof (cases "c = dq \<and> (\<exists>k r1 r2. scan_string [] r = Some (k, r1) \<and> skip_ws r1 = CHR '':'' # r2)")
    case False
    with Cons show ?thesis by (auto split: option.splits list.splits)
  next
    case True
    then obtain k r1 r2 where c: "c = dq" and sc: "scan_string [] r = Some (k, r1)"
      and sk1: "skip_ws r1 = CHR '':'' # r2" by blast
    have l2: "length (skip_ws r2) < length r"
      using scan_string_shorter [OF sc] skip_ws_Cons_length [OF sk1] skip_ws_length [of r2] by simp
    with Cons have jv: "jvalue m (skip_ws r2) = jvalue m' (skip_ws r2)" by (intro v) simp
    show ?thesis
    proof (cases "jvalue m' (skip_ws r2)")
      case None
      with Cons c sc sk1 jv show ?thesis by simp
    next
      case (Some p)
      obtain v1 r3 where p: "p = (v1, r3)" by (cases p)
      with Some have l3: "length r3 < length (skip_ws r2)" by (auto dest: jvalue_consumes)
      show ?thesis
      proof (cases "skip_ws r3")
        case Nil
        with Cons c sc sk1 jv Some p show ?thesis by simp
      next
        case (Cons e r4)
        have "length (skip_ws r4) + 2 \<le> length s"
          using \<open>s = c # r\<close> l2 l3 skip_ws_Cons_length [OF Cons] skip_ws_length [of r4] by simp
        with \<open>s = c # r\<close> c sc sk1 jv Some p Cons o show ?thesis by simp
      qed
    qed
  qed
qed

lemma jparse_fuel:
  "(\<forall>s. 2 * length s + 1 \<le> n \<longrightarrow> jvalue (Suc n) s = jvalue n s)
   \<and> (\<forall>acc s. 2 * length s + 2 \<le> n \<longrightarrow> jarray (Suc n) acc s = jarray n acc s)
   \<and> (\<forall>acc s. 2 * length s + 2 \<le> n \<longrightarrow> jobject (Suc n) acc s = jobject n acc s)"
proof (induction n)
  case 0
  then show ?case by simp
next
  case (Suc n)
  then have IHv: "\<And>s. 2 * length s + 1 \<le> n \<Longrightarrow> jvalue (Suc n) s = jvalue n s"
    and IHa: "\<And>acc s. 2 * length s + 2 \<le> n \<Longrightarrow> jarray (Suc n) acc s = jarray n acc s"
    and IHo: "\<And>acc s. 2 * length s + 2 \<le> n \<Longrightarrow> jobject (Suc n) acc s = jobject n acc s"
    by blast+
  have "jvalue (Suc (Suc n)) s = jvalue (Suc n) s" if "2 * length s + 1 \<le> Suc n" for s
  proof (cases s)
    case Nil
    then show ?thesis by simp
  next
    case (Cons c r)
    with that show ?thesis unfolding Cons by (intro jvalue_Suc_cong IHo IHa) simp_all
  qed
  moreover have "jarray (Suc (Suc n)) acc s = jarray (Suc n) acc s"
    if "2 * length s + 2 \<le> Suc n" for acc s
    using that by (intro jarray_Suc_cong IHv IHa) simp_all
  moreover have "jobject (Suc (Suc n)) acc s = jobject (Suc n) acc s"
    if "2 * length s + 2 \<le> Suc n" for acc s
    using that by (intro jobject_Suc_cong IHv IHo) simp_all
  ultimately show ?case by blast
qed

lemma jvalue_fuel_enough:
  assumes "2 * length s + 1 \<le> m"
  shows "jvalue m s = jvalue (2 * length s + 1) s"
  using assms
proof (induction m)
  case 0
  then show ?case by simp
next
  case (Suc m)
  show ?case
  proof (cases "2 * length s + 1 = Suc m")
    case True
    then show ?thesis by simp
  next
    case False
    with Suc.prems have "2 * length s + 1 \<le> m" by simp
    with Suc.IH jparse_fuel [of m] show ?thesis by simp
  qed
qed

text \<open>
  The fuel never decides a result of \<open>json.loads\<close>: any amount from
  \<open>2 * length s + 1\<close> on gives the same answer, so \<open>None\<close> is always a decoding error.
\<close>

lemma py_json_loads_fuel:
  assumes "2 * length s + 1 \<le> m"
  shows "py_json_loads s =
     (if prefix [CHR 0xEF, CHR 0xBB, CHR 0xBF] s then None
      else case jvalue m (skip_ws s) of
             None \<Rightarrow> None
           | Some (v, r) \<Rightarrow> if skip_ws r = [] then Some v else None)"
proof -
  have l: "2 * length (skip_ws s) + 1 \<le> 2 * length s + 1" using skip_ws_length [of s] by simp
  have "jvalue m (skip_ws s) = jvalue (2 * length (skip_ws s) + 1) (skip_ws s)"
    using assms l by (intro jvalue_fuel_enough) simp
  moreover have "jvalue (2 * length s + 1) (skip_ws s) = jvalue (2 * length (skip_ws s) + 1) (skip_ws s)"
    using l by (rule jvalue_fuel_enough)
  ultimately show ?thesis by (simp add: py_json_loads_def)
qed

subsection \<open>Plain strings and the matchmaker's answer\<close>

lemma scan_string_plain:
  "list_all plain_char x \<Longrightarrow> scan_string acc (x @ dq # rest) = Some (rev acc @ x, rest)"
  by (induction x arbitrary: acc) (auto simp: plain_char_def)

lemma skip_ws_Cons: "skip_ws (c # s) = (if json_ws c then skip_ws s else c # s)"
  by (simp add: skip_ws_def)

lemma loads_name_reason:
  assumes "list_all plain_char nm" and "list_all plain_char r"
  shows \<open>py_json_loads (''{"name": "'' @ nm @ ''", "reason": "'' @ r @ ''"}'')
         = Some (JObj [(''name'', JStr nm), (''reason'', JStr r)])\<close>
proof -
  let ?s = \<open>''{"name": "'' @ nm @ ''", "reason": "'' @ r @ ''"}''\<close>
  obtain k where k: "2 * length ?s + 1 = Suc (Suc (Suc (Suc (Suc (Suc k)))))"
    by (intro that [of "2 * length ?s - 5"]) simp
  have j: "jvalue (Suc (Suc (Suc (Suc (Suc (Suc k)))))) ?s
        = Some (JObj [(''name'', JStr nm), (''reason'', JStr r)], [])"
    using assms by (simp add: skip_ws_Cons json_ws_def scan_string_plain [simplified])
  have sk: "skip_ws ?s = ?s" by (simp add: skip_ws_Cons json_ws_def)
  have "\<not> prefix [CHR 0xEF, CHR 0xBB, CHR 0xBF] ?s" by simp
  then show ?thesis unfolding py_json_loads_def k sk j by (simp add: skip_ws_def)
qed

end
