(* ===== verification/Spec2Isabelle.thy ===== *)
theory Spec2Isabelle
  imports Session JsonDecode
begin

text \<open>
  \<^bold>\<open>Dev Connect AI: a verification model of src/app.py.\<close>

  The program is one Streamlit script. Its parts, leaves first:
  \<^item> the persona directory, the literal list \<open>developers\<close> (lines 10--23) and the
    lookups \<open>next(p for p in developers if p["name"] == ...)\<close> (lines 75, 156);
  \<^item> the sidebar (lines 30--47): the API key and the choice of \<open>selected_model\<close> from
    \<open>genai.list_models()\<close>;
  \<^item> the matchmaker \<open>find_best_match\<close> (lines 56--71): the directory as JSON in a
    prompt, the answer of the hosted model cleaned of markdown fences and parsed with
    \<open>json.loads\<close>, any exception turned into the dict \<open>{"name": "Error", ...}\<close>;
  \<^item> the responder \<open>chat_with_persona\<close> (lines 73--105): the roleplay prompt, the
    reply of the model, \<open>"Error: User left."\<close> for an unknown name and \<open>"..."\<close> when
    generation fails;
  \<^item> the session \<open>st.session_state\<close> (lines 25--28) and the UI handlers that change
    it: "Clear Chat" (51--53), login (111--118), logout (127--129), the Browse buttons
    (137--147), the matchmaker tab (152--162) and the chat tab with its file and text
    inputs (166--234).
  Every user interaction reruns the script; the external service is called
  synchronously inside a run.

  \<^bold>\<open>Theories.\<close>
  \<^item> \<open>Prelude\<close>: Python exceptions (\<open>py_exc\<close>), character constants, lemmas on
    \<open>find\<close> (Python's \<open>next\<close>) and sublists, the \<open>byte_simps\<close> collection.
  \<^item> \<open>Unicode\<close>: how the model represents Python \<open>str\<close> values: byte strings holding
    their UTF-8 encoding (\<open>utf8_enc\<close>, \<open>utf8_cps\<close>, \<open>utf8_valid\<close>, \<open>py_str\<close>, the
    decode-after-encode lemma \<open>utf8_cps_py_str\<close>). This is representation, not code of
    the program.
  \<^item> \<open>PyStr\<close>: the library methods \<open>str.strip()\<close> (\<open>py_strip\<close>, with Python's
    \<open>isspace\<close> code points) and \<open>str.replace\<close> (\<open>py_replace\<close>) that line 68 applies,
    with what strip leaves (\<open>py_strip_ends\<close>, \<open>strip_contract\<close>), that removing a run
    of one character leaves no such run (\<open>replace_run_gone\<close>) and that a stretch free
    of the pattern is copied (\<open>replace_nonempty_skip\<close>).
  \<^item> \<open>Json\<close>: the JSON values, \<open>json.dumps\<close> with \<open>ensure_ascii\<close> (\<open>dumps\<close>)
    and \<open>json.loads\<close> after CPython's scanner (\<open>py_json_loads\<close>: \<open>jvalue\<close>,
    \<open>jarray\<close>, \<open>jobject\<close>, \<open>scan_string\<close>, \<open>lex_number\<close>).
  \<^item> \<open>JsonDecode\<close>: the decoder consumes input at every step
    (\<open>jparse_consumes\<close>), its fuel is always enough (\<open>py_json_loads_fuel\<close>), plain
    strings read back as themselves, and the matchmaker's answer format decodes to the
    expected dict (\<open>loads_name_reason\<close>).
  \<^item> \<open>Directory\<close>: the record \<open>persona\<close> (one dict of the roster), \<open>developers\<close>
    with every string of the source, \<open>find_persona\<close>, \<open>persona_json\<close>, and the lookup
    property (C24).
  \<^item> \<open>Backend\<close>: the interfaces to the hosted service (\<open>generator\<close>,
    \<open>model_lister\<close>), the sidebar's model choice \<open>configure_model\<close> and its
    properties (C21--C23), and \<open>prompt_text\<close>, the shape of both triple-quoted prompts.
  \<^item> \<open>Responder\<close>: \<open>chat_with_persona\<close>, \<open>roleplay_prompt\<close>, \<open>file_instruction\<close>
    and their properties (C15--C17).
  \<^item> \<open>Matchmaker\<close>: \<open>find_best_match\<close>, \<open>match_prompt\<close>, \<open>clean_response\<close> and
    their properties (C18--C20): the value returned on every path, the cleaning of a
    fenced or bare object answer, the contents of the prompt.
  \<^item> \<open>Session\<close>: the records \<open>session\<close>, \<open>message\<close>, \<open>profile\<close>, the events, one
    definition per handler, \<open>step\<close> (one run of the script), \<open>run\<close>, the inductive
    \<open>reachable\<close>, the invariant \<open>session_inv\<close> with \<open>wf_log\<close> (proved for every
    reachable state by rule induction), and the properties of the handlers (C1--C14).
  \<^item> This theory: the matchmaker end to end (C25): an answer in the format the prompt
    asks for, naming a persona of the directory, selects that persona.

  \<^bold>\<open>How the code is modelled.\<close> The service is a parameter: every lemma holds for
  every \<open>generator\<close> and \<open>model_lister\<close>, which may answer differently on every run.
  An exception the code catches becomes the value the \<open>except\<close> branch returns; one it
  does not catch ends the run with \<open>Raised\<close>, keeping the changes already made to the
  session, as Streamlit does. Python integers are \<open>int\<close>. The JSON decoder recurses
  with fuel \<open>2 * length s + 1\<close>. This is enough for every input: every step of the
  scanner consumes a character, and a nested value costs at most two units per character
  (an array reads its element with the fuel it was given, less one). \<open>JsonDecode\<close>
  proves that any larger fuel gives the same result, so \<open>None\<close> is always a decoding
  error.

  \<^bold>\<open>Not modelled.\<close>
  \<^item> Page layout and rendering (\<open>st.write\<close>, columns, tabs, toasts, balloons),
    which change no state. This includes the chat history of lines 174--192. Rendering an
    uploaded file with \<open>st.image\<close> or \<open>st.video\<close> could raise and end the run before
    the input handlers of lines 203--234; the model assumes rendering does not raise.
  \<^item> The construction \<open>genai.GenerativeModel(selected_model)\<close> (lines 57 and 78)
    stands outside the \<open>try\<close> blocks. It does not contact the service, and the model
    assumes it does not raise. Failures of the call itself are the generator's \<open>None\<close>.
  \<^item> The internals of the hosted service and of \<open>genai\<close>.
  \<^item> CPython's recursion limit in \<open>json.loads\<close>: a document nested about a thousand
    levels deep raises \<open>RecursionError\<close>, which \<open>find_best_match\<close> catches like a
    decoding error.
  \<^item> The text of a float that \<open>json.dumps\<close> prints: the model prints the text it
    parsed, and the roster holds no float.
\<close>

subsection \<open>The matchmaker end to end\<close>

lemma roster_names_plain:
  "d \<in> set developers \<Longrightarrow> list_all plain_char (dev_name d) \<and> CHR ''`'' \<notin> set (dev_name d)"
  by (auto simp: developers_def plain_char_def)

lemma compliant_answer_clean:
  assumes "list_all plain_char r" and "CHR ''`'' \<notin> set r" and "d \<in> set developers"
    and \<open>ans = ''```json'' @ nl @ ''{"name": "'' @ dev_name d @ ''", "reason": "'' @ r @ ''"}'' @ nl @ ''```''
         \<or> ans = ''{"name": "'' @ dev_name d @ ''", "reason": "'' @ r @ ''"}''\<close>
  shows \<open>py_json_loads (clean_response ans) = Some (JObj [(''name'', JStr (dev_name d)), (''reason'', JStr r)])\<close>
proof -
  let ?b = \<open>''"name": "'' @ dev_name d @ ''", "reason": "'' @ r @ ''"''\<close>
  have nb: "CHR ''`'' \<notin> set ?b" using assms(2) roster_names_plain [OF assms(3)] by simp
  have "clean_response ans = CHR ''{'' # ?b @ ''}''"
    using assms(4) clean_response_fenced [OF nb] clean_response_bare [OF nb] by auto
  then show ?thesis
    using loads_name_reason [of "dev_name d" r] assms(1) roster_names_plain [OF assms(3)] by simp
qed

text \<open>
  C25: the matchmaker accepts the answer its prompt asks for. When the model answers with
  the object \<open>{"name": ..., "reason": ...}\<close> naming a persona of the directory, bare or in
  a \<open>```json\<close> fence, and the reason is plain text, the matchmaker tab selects that
  persona, empties the log and completes.
\<close>

theorem compliant_answer_selects:
  assumes "user_profile s = Some p" and "d \<in> set developers"
    and "list_all plain_char r" and "CHR ''`'' \<notin> set r"
    and \<open>generate e (run_model e) (match_prompt (prof_bio p))
           = Some (''```json'' @ nl @ ''{"name": "'' @ dev_name d @ ''", "reason": "'' @ r @ ''"}'' @ nl @ ''```'')
         \<or> generate e (run_model e) (match_prompt (prof_bio p))
           = Some (''{"name": "'' @ dev_name d @ ''", "reason": "'' @ r @ ''"}'')\<close>
  shows "step e s FindMatch = (s\<lparr>selected_match := Some d, messages := []\<rparr>, Completed)"
proof -
  obtain ans where g: "generate e (run_model e) (match_prompt (prof_bio p)) = Some ans"
    and t: \<open>ans = ''```json'' @ nl @ ''{"name": "'' @ dev_name d @ ''", "reason": "'' @ r @ ''"}'' @ nl @ ''```''
         \<or> ans = ''{"name": "'' @ dev_name d @ ''", "reason": "'' @ r @ ''"}''\<close>
    using assms(5) by blast
  have "find_best_match (generate e) (run_model e) (prof_bio p)
        = JObj [(''name'', JStr (dev_name d)), (''reason'', JStr r)]"
    using g compliant_answer_clean [OF assms(3,4,2) t] by (rule find_best_match_parsed)
  then have "run_matchmaker e p s = apply_match (JObj [(''name'', JStr (dev_name d)), (''reason'', JStr r)]) s"
    by (rule run_matchmaker_eq)
  with assms(1,2) show ?thesis
    by (simp add: apply_match_def json_get_def find_by_name)
qed

theorem compliant_answer_selects_witness:
  \<open>step \<lparr>api_key = ''k'', lister = (\<lambda>_. None),
         generate = (\<lambda>_ _. Some (''```json'' @ nl @ ''{"name": "Bob Smith", "reason": "Both love Go"}'' @ nl @ ''```''))\<rparr>
     \<lparr>messages = [user_message ''hi''], user_profile = Some \<lparr>prof_name = ''Sam'', prof_bio = ''loves Go backends''\<rparr>,
      selected_match = Some (developers ! 0)\<rparr> FindMatch
   = (\<lparr>messages = [], user_profile = Some \<lparr>prof_name = ''Sam'', prof_bio = ''loves Go backends''\<rparr>,
       selected_match = Some (developers ! 1)\<rparr>, Completed)\<close>
proof -
  have d: "developers ! 1 \<in> set developers" and n: "dev_name (developers ! 1) = ''Bob Smith''"
    by (simp_all add: developers_def)
  have r: "list_all plain_char ''Both love Go''" by (simp add: plain_char_def)
  show ?thesis
    using compliant_answer_selects [OF _ d r, of \<open>\<lparr>messages = [user_message ''hi''],
        user_profile = Some \<lparr>prof_name = ''Sam'', prof_bio = ''loves Go backends''\<rparr>,
        selected_match = Some (developers ! 0)\<rparr>\<close>] n
    by simp
qed

end
